theory Spec2Isabelle
  imports Main
begin

section \<open>Data model of the container push command\<close>

text \<open>
  The embedding follows \<^verbatim>\<open>artifactory/commands/container/push.go\<close>. Go strings are
  byte sequences, modelled by \<^typ>\<open>string\<close>. A Go call returning \<^verbatim>\<open>(v, err)\<close> is a pair
  whose second component is an \<^typ>\<open>'a option\<close> (\<open>None\<close> for a nil error); a pointer
  that may be nil is an option as well.
\<close>

text \<open>
  Errors. \<open>Opaque\<close> is an error produced by a collaborator, \<open>Errorf\<close> is
  \<^verbatim>\<open>fmt.Errorf(msg)\<close> and \<open>Wrapf\<close> is \<^verbatim>\<open>fmt.Errorf(msg + "%w", err)\<close>.
\<close>

datatype error = Opaque string | Errorf string | Wrapf string error

text \<open>\<^verbatim>\<open>errorutils.CheckError\<close> hands back the error it is given.\<close>

definition CheckError :: "error option \<Rightarrow> error option" where
  "CheckError err = err"

text \<open>
  How a call of \<^verbatim>\<open>Run\<close> ends: it returns nil, it returns an error, or it panics on a
  nil pointer.
\<close>

datatype outcome = Returned "error option" | Panicked string

text \<open>
  \<^verbatim>\<open>servicesutils.Property\<close> and the fields of \<^verbatim>\<open>servicesutils.ResultItem\<close> that the
  command reads.
\<close>

record Property =
  Key :: string
  Value :: string

record ResultItem =
  Repo :: string
  Path :: string
  Name :: string
  Properties :: "Property list"

text \<open>\<^verbatim>\<open>clientutils.FileTransferDetails\<close>; the command leaves \<open>SourcePath\<close> at its zero value.\<close>

record FileTransferDetails =
  SourcePath :: string
  TargetPath :: string
  RtUrl :: string
  Sha256 :: string

text \<open>\<^verbatim>\<open>content.ContentReader\<close> as built by \<^verbatim>\<open>NewContentReader(filePath, arrayKey)\<close>.\<close>

record ContentReader =
  filePath :: string
  arrayKey :: string

definition NewContentReader :: "string \<Rightarrow> string \<Rightarrow> ContentReader" where
  "NewContentReader f k = \<lparr>filePath = f, arrayKey = k\<rparr>"

text \<open>\<^verbatim>\<open>commandsutils.Result\<close> with its setters; \<open>new_Result\<close> is \<^verbatim>\<open>new(commandsutils.Result)\<close>.\<close>

record Result =
  successCount :: int
  failCount :: int
  reader :: "ContentReader option"

definition new_Result :: Result where
  "new_Result = \<lparr>successCount = 0, failCount = 0, reader = None\<rparr>"

definition SetReader :: "ContentReader \<Rightarrow> Result \<Rightarrow> Result" where
  "SetReader r res = res\<lparr>reader := Some r\<rparr>"

definition SetSuccessCount :: "int \<Rightarrow> Result \<Rightarrow> Result" where
  "SetSuccessCount n res = res\<lparr>successCount := n\<rparr>"

definition SuccessCount :: "Result \<Rightarrow> int" where
  "SuccessCount res = successCount res"

section \<open>Go's \<^verbatim>\<open>path.Join\<close>\<close>

text \<open>
  The standard library's \<^verbatim>\<open>path.Clean\<close> writes into a buffer \<open>out\<close> while it reads the
  path; \<open>dotdot\<close> is the length of the prefix that a \<^verbatim>\<open>..\<close> element may not remove.
  \<open>lazybuf_backtrack\<close> is the loop that drops the last element of the buffer:
  \<^verbatim>\<open>out.w--; for out.w > dotdot && out.index(out.w) != '/' { out.w-- }\<close>.
\<close>

function lazybuf_backtrack :: "nat \<Rightarrow> string \<Rightarrow> string" where
  "lazybuf_backtrack dotdot out =
     (if out = [] then []
      else if dotdot < length (butlast out) \<and> last out \<noteq> CHR ''/''
        then lazybuf_backtrack dotdot (butlast out)
      else butlast out)"
  by pat_completeness auto
termination
  by (relation "measure (\<lambda>(d, out). length out)") auto

definition not_slash :: "char \<Rightarrow> bool" where
  "not_slash c = (c \<noteq> CHR ''/'')"

function Clean_loop :: "bool \<Rightarrow> string \<Rightarrow> string \<Rightarrow> nat \<Rightarrow> string" where
  "Clean_loop rooted [] out dotdot = out"
| "Clean_loop rooted (c # cs) out dotdot =
     (if c = CHR ''/'' then Clean_loop rooted cs out dotdot
      else if c = CHR ''.'' \<and> (cs = [] \<or> take 1 cs = ''/'') then Clean_loop rooted cs out dotdot
      else if c = CHR ''.'' \<and> take 1 cs = ''.'' \<and> (drop 1 cs = [] \<or> take 1 (drop 1 cs) = ''/'') then
        (if dotdot < length out
           then Clean_loop rooted (drop 1 cs) (lazybuf_backtrack dotdot out) dotdot
         else if \<not> rooted
           then Clean_loop rooted (drop 1 cs)
                  ((if 0 < length out then out @ ''/'' else out) @ ''..'')
                  (length ((if 0 < length out then out @ ''/'' else out) @ ''..''))
         else Clean_loop rooted (drop 1 cs) out dotdot)
      else Clean_loop rooted (dropWhile not_slash cs)
             ((if rooted \<and> length out \<noteq> 1 \<or> \<not> rooted \<and> length out \<noteq> 0 then out @ ''/'' else out)
                @ c # takeWhile not_slash cs)
             dotdot)"
  by pat_completeness auto
termination
  by (relation "measure (\<lambda>(r, p, out, d). length p)")
     (auto simp: le_imp_less_Suc length_dropWhile_le)

definition Clean :: "string \<Rightarrow> string" where
  "Clean p =
     (if p = [] then ''.''
      else let rooted = (hd p = CHR ''/'');
               out = Clean_loop rooted (if rooted then tl p else p)
                       (if rooted then ''/'' else []) (if rooted then 1 else 0)
           in if out = [] then ''.'' else out)"

text \<open>
  \<^verbatim>\<open>path.Join\<close>: an empty result when every element is empty; otherwise the elements
  are written to a buffer, a slash before each one once the buffer is non-empty, and the
  buffer is cleaned.
\<close>

fun Join_loop :: "string list \<Rightarrow> string \<Rightarrow> string" where
  "Join_loop [] buf = buf"
| "Join_loop (e # es) buf =
     Join_loop es
       (if 0 < length buf \<or> e \<noteq> [] then (if 0 < length buf then buf @ ''/'' else buf) @ e
        else buf)"

definition Join :: "string list \<Rightarrow> string" where
  "Join elem = (if sum_list (map length elem) = 0 then [] else Clean (Join_loop elem []))"

section \<open>The push command and its collaborators\<close>

datatype ContainerManagerType = DockerClient | Podman

record ServerDetails =
  ArtifactoryUrl :: string

text \<open>
  \<^verbatim>\<open>build.BuildConfiguration\<close>: each field is what the method of that name returns.
\<close>

record BuildConfiguration =
  IsCollectBuildInfo :: "bool \<times> error option"
  GetBuildName :: "string \<times> error option"
  GetBuildNumber :: "string \<times> error option"
  GetProject :: string
  GetModule :: string

text \<open>
  \<^verbatim>\<open>PushCommand\<close> with the fields of the embedded \<^verbatim>\<open>ContainerCommand\<close> that
  \<^verbatim>\<open>Run\<close> reads. \<open>serverDetails\<close> and \<open>result\<close> are pointers.
\<close>

record PushCommand =
  containerManagerType :: ContainerManagerType
  image :: string
  cmdParams :: "string list"
  serverDetails :: "ServerDetails option"
  buildConfiguration :: BuildConfiguration
  validateSha :: bool
  threads :: int
  detailedSummary :: bool
  result :: "Result option"

definition IsDetailedSummary :: "PushCommand \<Rightarrow> bool" where
  "IsDetailedSummary pc = detailedSummary pc"

definition IsValidateSha :: "PushCommand \<Rightarrow> bool" where
  "IsValidateSha pc = validateSha pc"

definition SetResult :: "Result option \<Rightarrow> PushCommand \<Rightarrow> PushCommand" where
  "SetResult r pc = pc\<lparr>result := r\<rparr>"

definition ServerDetails_of :: "PushCommand \<Rightarrow> ServerDetails option \<times> error option" where
  "ServerDetails_of pc = (serverDetails pc, None)"

text \<open>\<^verbatim>\<open>buildinfo.BuildInfo\<close>, the module a builder returns; only its identity matters here.\<close>

datatype BuildInfo = BuildInfo string

text \<open>
  The collaborators of \<^verbatim>\<open>Run\<close>, none of which is defined in this file of the
  repository: each field gives the result of the call of that name. \<open>'lb\<close> is the state
  of a \<^verbatim>\<open>LocalAgentBuildInfoBuilder\<close> (the tag-based resolver), \<open>'rb\<close> that of a
  \<^verbatim>\<open>RemoteAgentBuildInfoBuilder\<close> (the digest-based one); a method that changes the
  builder returns its new state. The service manager is an opaque handle and is left out
  of the arguments.
\<close>

record ('lb, 'rb) Collaborators =
  pc_init :: "error option"
  ValidateClientApiVersion :: "error option"
  PerformLogin :: "ServerDetails option \<Rightarrow> ContainerManagerType \<Rightarrow> error option"
  RunNativeCmd :: "string list \<Rightarrow> error option"
  CreateServiceManagerWithThreads :: "ServerDetails option \<Rightarrow> int \<Rightarrow> error option"
  GetRepo :: "string \<times> error option"
  cm_Id :: "string \<Rightarrow> string \<times> error option"
  NewRemoteAgentBuildInfoBuilder ::
    "string \<Rightarrow> string \<Rightarrow> string \<Rightarrow> string \<Rightarrow> string \<Rightarrow> string \<Rightarrow> 'rb \<times> error option"
  NewLocalAgentBuildInfoBuilder ::
    "string \<Rightarrow> string \<Rightarrow> string \<Rightarrow> string \<Rightarrow> string \<Rightarrow> 'lb \<times> error option"
  SaveBuildGeneralDetails :: "string \<Rightarrow> string \<Rightarrow> string \<Rightarrow> error option"
  RemoteBuild :: "'rb \<Rightarrow> string \<Rightarrow> (BuildInfo option \<times> error option) \<times> 'rb"
  RemoteGetLayers :: "'rb \<Rightarrow> ResultItem list option"
  LocalBuild :: "'lb \<Rightarrow> string \<Rightarrow> (BuildInfo option \<times> error option) \<times> 'lb"
  SetSkipTaggingLayers :: "bool \<Rightarrow> 'lb \<Rightarrow> 'lb"
  LocalGetLayers :: "'lb \<Rightarrow> ResultItem list option"
  SaveBuildInfo :: "string \<Rightarrow> string \<Rightarrow> string \<Rightarrow> BuildInfo \<Rightarrow> error option"
  SaveFileTransferDetailsInTempFile :: "FileTransferDetails list \<Rightarrow> string \<times> error option"

text \<open>
  The calls \<^verbatim>\<open>Run\<close> makes to its collaborators, in order, with the arguments and
  results that matter. A \<open>Build\<close> event carries the builder state it is called on.
\<close>

datatype ('lb, 'rb) event =
    EvValidateClientApiVersion "error option"
  | EvPerformLogin "error option"
  | EvRunNativeCmd "string list" "error option"
  | EvCreateServiceManager "error option"
  | EvId string "error option"
  | EvNewRemoteBuilder string "error option"
  | EvNewLocalBuilder "error option"
  | EvSaveBuildGeneralDetails "error option"
  | EvRemoteBuild 'rb string "BuildInfo option \<times> error option"
  | EvLocalBuild 'lb string "BuildInfo option \<times> error option"
  | EvSetSkipTaggingLayers bool
  | EvSaveBuildInfo BuildInfo "error option"
  | EvSaveFileTransferDetails "FileTransferDetails list" "error option"

type_synonym ('lb, 'rb) run_result = "outcome \<times> PushCommand \<times> ('lb, 'rb) event list"

definition emit :: "('lb, 'rb) event \<Rightarrow> ('lb, 'rb) run_result \<Rightarrow> ('lb, 'rb) run_result" where
  "emit ev r = (case r of (out, pc, tr) \<Rightarrow> (out, pc, ev # tr))"

definition ret :: "error option \<Rightarrow> PushCommand \<Rightarrow> ('lb, 'rb) run_result" where
  "ret err pc = (Returned err, pc, [])"

definition outcome_of :: "('lb, 'rb) run_result \<Rightarrow> outcome" where
  "outcome_of r = fst r"

definition command_of :: "('lb, 'rb) run_result \<Rightarrow> PushCommand" where
  "command_of r = fst (snd r)"

definition trace_of :: "('lb, 'rb) run_result \<Rightarrow> ('lb, 'rb) event list" where
  "trace_of r = snd (snd r)"

section \<open>The transfer-manifest builder\<close>

text \<open>The inner loop of \<^verbatim>\<open>layersMapToFileTransferDetails\<close> over one layer's properties.\<close>

fun properties_loop :: "Property list \<Rightarrow> string \<Rightarrow> string" where
  "properties_loop [] sha256 = sha256"
| "properties_loop (property # rest) sha256 =
     properties_loop rest (if Key property = ''sha256'' then Value property else sha256)"

definition layer_details :: "string \<Rightarrow> ResultItem \<Rightarrow> FileTransferDetails" where
  "layer_details artifactoryUrl layer =
     \<lparr>SourcePath = [],
      TargetPath = Join [Repo layer, Path layer, Name layer],
      RtUrl = artifactoryUrl,
      Sha256 = properties_loop (Properties layer) []\<rparr>"

text \<open>The outer loop, appending to \<open>details\<close>.\<close>

fun layers_loop :: "string \<Rightarrow> ResultItem list \<Rightarrow> FileTransferDetails list \<Rightarrow> FileTransferDetails list" where
  "layers_loop artifactoryUrl [] details = details"
| "layers_loop artifactoryUrl (layer # rest) details =
     layers_loop artifactoryUrl rest (details @ [layer_details artifactoryUrl layer])"

text \<open>
  \<^verbatim>\<open>layersMapToFileTransferDetails\<close>. The argument is a pointer to a slice, and
  dereferencing a nil pointer panics.
\<close>

definition layersMapToFileTransferDetails ::
  "('lb, 'rb) Collaborators \<Rightarrow> string \<Rightarrow> ResultItem list option \<Rightarrow> PushCommand \<Rightarrow> ('lb, 'rb) run_result" where
  "layersMapToFileTransferDetails env artifactoryUrl layers pc =
     (case layers of
        None \<Rightarrow> (Panicked ''nil pointer dereference'', pc, [])
      | Some ls \<Rightarrow>
          (let details = layers_loop artifactoryUrl ls [];
               (tempFile, err) = SaveFileTransferDetailsInTempFile env details
           in emit (EvSaveFileTransferDetails details err)
                (case err of
                   Some e \<Rightarrow> ret (Some e) pc
                 | None \<Rightarrow>
                     ret None
                       (SetResult
                          (Some (SetSuccessCount (int (length details))
                                   (SetReader (NewContentReader tempFile ''files'') new_Result)))
                          pc))))"

section \<open>\<^verbatim>\<open>PushCommand.Run\<close>\<close>

text \<open>
  \<^verbatim>\<open>return pc.layersMapToFileTransferDetails(serverDetails.ArtifactoryUrl, layers)\<close>,
  the last statement of both summary blocks; \<open>serverDetails\<close> is a pointer.
\<close>

definition summary_return ::
  "('lb, 'rb) Collaborators \<Rightarrow> PushCommand \<Rightarrow> ServerDetails option \<Rightarrow> ResultItem list option \<Rightarrow> ('lb, 'rb) run_result" where
  "summary_return env pc sd layers =
     (case sd of
        None \<Rightarrow> (Panicked ''nil pointer dereference'', pc, [])
      | Some s \<Rightarrow> layersMapToFileTransferDetails env (ArtifactoryUrl s) layers pc)"

text \<open>The digest path, from \<^verbatim>\<open>if pc.IsDetailedSummary()\<close> to its \<^verbatim>\<open>return nil\<close>.\<close>

definition Run_validateSha_summary ::
  "('lb, 'rb) Collaborators \<Rightarrow> PushCommand \<Rightarrow> ServerDetails option \<Rightarrow> bool \<Rightarrow> 'rb \<Rightarrow> ('lb, 'rb) run_result" where
  "Run_validateSha_summary env pc sd toCollect remoteBuilder =
     (if IsDetailedSummary pc then
        (if \<not> toCollect then
           (case RemoteBuild env remoteBuilder [] of ((m, err), remoteBuilder') \<Rightarrow>
              emit (EvRemoteBuild remoteBuilder [] (m, err))
                (case err of
                   Some e \<Rightarrow> ret (CheckError (Some (Wrapf ''failed to build summary info: '' e))) pc
                 | None \<Rightarrow> summary_return env pc sd (RemoteGetLayers env remoteBuilder')))
         else summary_return env pc sd (RemoteGetLayers env remoteBuilder))
      else ret None pc)"

text \<open>The digest path: the body of \<^verbatim>\<open>if pc.IsValidateSha()\<close>.\<close>

definition Run_validateSha ::
  "('lb, 'rb) Collaborators \<Rightarrow> PushCommand \<Rightarrow> ServerDetails option \<Rightarrow> bool \<Rightarrow> string \<Rightarrow> string \<Rightarrow> string
     \<Rightarrow> ('lb, 'rb) run_result" where
  "Run_validateSha env pc sd toCollect buildName buildNumber repo =
     (case cm_Id env (image pc) of (imageSha256, err) \<Rightarrow>
        emit (EvId (image pc) err)
          (case err of
             Some e \<Rightarrow> ret (Some e) pc
           | None \<Rightarrow>
               (case NewRemoteAgentBuildInfoBuilder env (image pc) repo buildName buildNumber
                       (GetProject (buildConfiguration pc)) imageSha256 of
                  (remoteBuilder, err) \<Rightarrow>
                    emit (EvNewRemoteBuilder imageSha256 err)
                      (case err of
                         Some e \<Rightarrow> ret (Some e) pc
                       | None \<Rightarrow>
                           (if toCollect then
                              (case SaveBuildGeneralDetails env buildName buildNumber
                                      (GetProject (buildConfiguration pc)) of
                                 Some e \<Rightarrow> emit (EvSaveBuildGeneralDetails (Some e)) (ret (Some e) pc)
                               | None \<Rightarrow>
                                   emit (EvSaveBuildGeneralDetails None)
                                     (case RemoteBuild env remoteBuilder (GetModule (buildConfiguration pc)) of
                                        ((buildInfoModule, err), remoteBuilder') \<Rightarrow>
                                          emit (EvRemoteBuild remoteBuilder (GetModule (buildConfiguration pc))
                                                  (buildInfoModule, err))
                                            (case err of
                                               Some e \<Rightarrow> ret (Some e) pc
                                             | None \<Rightarrow>
                                                 (case buildInfoModule of
                                                    None \<Rightarrow>
                                                      ret (CheckError (Some (Errorf
                                                        ''failed to create build info module: module is nil''))) pc
                                                  | Some m \<Rightarrow>
                                                      (case SaveBuildInfo env buildName buildNumber
                                                              (GetProject (buildConfiguration pc)) m of
                                                         Some e \<Rightarrow>
                                                           emit (EvSaveBuildInfo m (Some e))
                                                             (ret (CheckError (Some (Wrapf
                                                                ''failed to save build info: '' e))) pc)
                                                       | None \<Rightarrow>
                                                           emit (EvSaveBuildInfo m None)
                                                             (Run_validateSha_summary env pc sd toCollect
                                                                remoteBuilder'))))))
                            else Run_validateSha_summary env pc sd toCollect remoteBuilder)))))"

text \<open>The tag path, from \<^verbatim>\<open>if pc.IsDetailedSummary()\<close> to the final \<^verbatim>\<open>return nil\<close>.\<close>

definition Run_standard_summary ::
  "('lb, 'rb) Collaborators \<Rightarrow> PushCommand \<Rightarrow> ServerDetails option \<Rightarrow> bool \<Rightarrow> 'lb \<Rightarrow> ('lb, 'rb) run_result" where
  "Run_standard_summary env pc sd toCollect builder =
     (if IsDetailedSummary pc then
        (if \<not> toCollect then
           emit (EvSetSkipTaggingLayers True)
             (case LocalBuild env (SetSkipTaggingLayers env True builder) [] of ((m, err), builder') \<Rightarrow>
                emit (EvLocalBuild (SetSkipTaggingLayers env True builder) [] (m, err))
                  (case err of
                     Some e \<Rightarrow> ret (Some e) pc
                   | None \<Rightarrow> summary_return env pc sd (LocalGetLayers env builder')))
         else summary_return env pc sd (LocalGetLayers env builder))
      else ret None pc)"

text \<open>The tag path: everything after the \<^verbatim>\<open>if pc.IsValidateSha()\<close> block.\<close>

definition Run_standard ::
  "('lb, 'rb) Collaborators \<Rightarrow> PushCommand \<Rightarrow> ServerDetails option \<Rightarrow> bool \<Rightarrow> string \<Rightarrow> string \<Rightarrow> string
     \<Rightarrow> ('lb, 'rb) run_result" where
  "Run_standard env pc sd toCollect buildName buildNumber repo =
     (case NewLocalAgentBuildInfoBuilder env (image pc) repo buildName buildNumber
             (GetProject (buildConfiguration pc)) of
        (builder, err) \<Rightarrow>
          emit (EvNewLocalBuilder err)
            (case err of
               Some e \<Rightarrow> ret (Some e) pc
             | None \<Rightarrow>
                 (if toCollect then
                    (case SaveBuildGeneralDetails env buildName buildNumber
                            (GetProject (buildConfiguration pc)) of
                       Some e \<Rightarrow> emit (EvSaveBuildGeneralDetails (Some e)) (ret (Some e) pc)
                     | None \<Rightarrow>
                         emit (EvSaveBuildGeneralDetails None)
                           (case LocalBuild env builder (GetModule (buildConfiguration pc)) of
                              ((buildInfoModule, err), builder') \<Rightarrow>
                                emit (EvLocalBuild builder (GetModule (buildConfiguration pc))
                                        (buildInfoModule, err))
                                  (if err \<noteq> None \<or> buildInfoModule = None then ret err pc
                                   else
                                     (case SaveBuildInfo env buildName buildNumber
                                             (GetProject (buildConfiguration pc)) (the buildInfoModule) of
                                        Some e \<Rightarrow>
                                          emit (EvSaveBuildInfo (the buildInfoModule) (Some e))
                                            (ret (Some e) pc)
                                      | None \<Rightarrow>
                                          emit (EvSaveBuildInfo (the buildInfoModule) None)
                                            (Run_standard_summary env pc sd toCollect builder')))))
                  else Run_standard_summary env pc sd toCollect builder)))"

text \<open>
  \<^verbatim>\<open>Run\<close> from the build configuration onwards, once the native push command has
  returned without an error.
\<close>

definition Run_after_push ::
  "('lb, 'rb) Collaborators \<Rightarrow> PushCommand \<Rightarrow> ServerDetails option \<Rightarrow> ('lb, 'rb) run_result" where
  "Run_after_push env pc sd =
     (case IsCollectBuildInfo (buildConfiguration pc) of (toCollect, err) \<Rightarrow>
        (case err of
           Some e \<Rightarrow> ret (Some e) pc
         | None \<Rightarrow>
             (if \<not> toCollect \<and> \<not> IsDetailedSummary pc then ret None pc
              else
                (case GetBuildName (buildConfiguration pc) of (buildName, err) \<Rightarrow>
                   (case err of
                      Some e \<Rightarrow> ret (Some e) pc
                    | None \<Rightarrow>
                        (case GetBuildNumber (buildConfiguration pc) of (buildNumber, err) \<Rightarrow>
                           (case err of
                              Some e \<Rightarrow> ret (Some e) pc
                            | None \<Rightarrow>
                                (case CreateServiceManagerWithThreads env sd (threads pc) of
                                   Some e \<Rightarrow> emit (EvCreateServiceManager (Some e)) (ret (Some e) pc)
                                 | None \<Rightarrow>
                                     emit (EvCreateServiceManager None)
                                       (case GetRepo env of (repo, err) \<Rightarrow>
                                          (case err of
                                             Some e \<Rightarrow> ret (Some e) pc
                                           | None \<Rightarrow>
                                               (if IsValidateSha pc
                                                  then Run_validateSha env pc sd toCollect buildName
                                                         buildNumber repo
                                                  else Run_standard env pc sd toCollect buildName
                                                         buildNumber repo)))))))))))"

text \<open>\<^verbatim>\<open>Run\<close> from \<^verbatim>\<open>pc.ServerDetails()\<close> to the native push command.\<close>

definition Run_login_push :: "('lb, 'rb) Collaborators \<Rightarrow> PushCommand \<Rightarrow> ('lb, 'rb) run_result" where
  "Run_login_push env pc =
     (case ServerDetails_of pc of (sd, err) \<Rightarrow>
        (if CheckError err \<noteq> None then ret err pc
         else
           (case PerformLogin env sd (containerManagerType pc) of
              Some e \<Rightarrow> emit (EvPerformLogin (Some e)) (ret (Some e) pc)
            | None \<Rightarrow>
                emit (EvPerformLogin None)
                  (case RunNativeCmd env (cmdParams pc) of
                     Some e \<Rightarrow> emit (EvRunNativeCmd (cmdParams pc) (Some e)) (ret (Some e) pc)
                   | None \<Rightarrow>
                       emit (EvRunNativeCmd (cmdParams pc) None) (Run_after_push env pc sd)))))"

definition Run :: "('lb, 'rb) Collaborators \<Rightarrow> PushCommand \<Rightarrow> ('lb, 'rb) run_result" where
  "Run env pc =
     (case pc_init env of
        Some e \<Rightarrow> ret (Some e) pc
      | None \<Rightarrow>
          (if containerManagerType pc = DockerClient then
             (case ValidateClientApiVersion env of
                Some e \<Rightarrow> emit (EvValidateClientApiVersion (Some e)) (ret (Some e) pc)
              | None \<Rightarrow> emit (EvValidateClientApiVersion None) (Run_login_push env pc))
           else Run_login_push env pc))"

section \<open>Observing a run\<close>

text \<open>The property test of the inner loop.\<close>

definition is_sha256 :: "Property \<Rightarrow> bool" where
  "is_sha256 property = (Key property = ''sha256'')"

text \<open>
  The resolver instances \<^verbatim>\<open>Run\<close> constructs: the arguments are the ones of the two
  constructor calls in \<^verbatim>\<open>Run\<close>.
\<close>

definition remote_builder :: "('lb, 'rb) Collaborators \<Rightarrow> PushCommand \<Rightarrow> 'rb" where
  "remote_builder env pc =
     fst (NewRemoteAgentBuildInfoBuilder env (image pc) (fst (GetRepo env))
            (fst (GetBuildName (buildConfiguration pc))) (fst (GetBuildNumber (buildConfiguration pc)))
            (GetProject (buildConfiguration pc)) (fst (cm_Id env (image pc))))"

definition local_builder :: "('lb, 'rb) Collaborators \<Rightarrow> PushCommand \<Rightarrow> 'lb" where
  "local_builder env pc =
     fst (NewLocalAgentBuildInfoBuilder env (image pc) (fst (GetRepo env))
            (fst (GetBuildName (buildConfiguration pc))) (fst (GetBuildNumber (buildConfiguration pc)))
            (GetProject (buildConfiguration pc)))"

text \<open>Classes of events.\<close>

fun is_Build :: "('lb, 'rb) event \<Rightarrow> bool" where
  "is_Build (EvRemoteBuild b m r) = True"
| "is_Build (EvLocalBuild b m r) = True"
| "is_Build _ = False"

text \<open>A \<open>Build\<close> call that returned a nil module together with a nil error.\<close>

fun is_nil_Build :: "('lb, 'rb) event \<Rightarrow> bool" where
  "is_nil_Build (EvRemoteBuild b m r) = (r = (None, None))"
| "is_nil_Build (EvLocalBuild b m r) = (r = (None, None))"
| "is_nil_Build _ = False"

fun is_SaveBuildInfo :: "('lb, 'rb) event \<Rightarrow> bool" where
  "is_SaveBuildInfo (EvSaveBuildInfo m r) = True"
| "is_SaveBuildInfo _ = False"

fun is_SetSkipTaggingLayers :: "('lb, 'rb) event \<Rightarrow> bool" where
  "is_SetSkipTaggingLayers (EvSetSkipTaggingLayers v) = True"
| "is_SetSkipTaggingLayers _ = False"

text \<open>The constructor calls of the two resolvers.\<close>

fun is_constructor :: "('lb, 'rb) event \<Rightarrow> bool" where
  "is_constructor (EvNewRemoteBuilder sha r) = True"
| "is_constructor (EvNewLocalBuilder r) = True"
| "is_constructor _ = False"

text \<open>Calls that belong to the digest strategy, and calls that belong to the tag strategy.\<close>

fun is_digest_event :: "('lb, 'rb) event \<Rightarrow> bool" where
  "is_digest_event (EvId i r) = True"
| "is_digest_event (EvNewRemoteBuilder sha r) = True"
| "is_digest_event (EvRemoteBuild b m r) = True"
| "is_digest_event _ = False"

fun is_tag_event :: "('lb, 'rb) event \<Rightarrow> bool" where
  "is_tag_event (EvNewLocalBuilder r) = True"
| "is_tag_event (EvLocalBuild b m r) = True"
| "is_tag_event (EvSetSkipTaggingLayers v) = True"
| "is_tag_event _ = False"

text \<open>The builder states on which \<open>Build\<close> is called, in order.\<close>

fun remote_build_states :: "('lb, 'rb) event list \<Rightarrow> 'rb list" where
  "remote_build_states [] = []"
| "remote_build_states (EvRemoteBuild b m r # evs) = b # remote_build_states evs"
| "remote_build_states (ev # evs) = remote_build_states evs"

fun local_build_states :: "('lb, 'rb) event list \<Rightarrow> 'lb list" where
  "local_build_states [] = []"
| "local_build_states (EvLocalBuild b m r # evs) = b # local_build_states evs"
| "local_build_states (ev # evs) = local_build_states evs"

text \<open>The digests handed to the digest resolver's constructor.\<close>

fun constructor_digests :: "('lb, 'rb) event list \<Rightarrow> string list" where
  "constructor_digests [] = []"
| "constructor_digests (EvNewRemoteBuilder sha r # evs) = sha # constructor_digests evs"
| "constructor_digests (ev # evs) = constructor_digests evs"

text \<open>The transfer manifests handed to the serializer.\<close>

fun manifests :: "('lb, 'rb) event list \<Rightarrow> FileTransferDetails list list" where
  "manifests [] = []"
| "manifests (EvSaveFileTransferDetails ds r # evs) = ds # manifests evs"
| "manifests (ev # evs) = manifests evs"

text \<open>
  Resolver construction, resolution, persistence of build-info and the writing of the
  transfer manifest: everything \<^verbatim>\<open>Run\<close> does after the engine calls and the creation of
  the service manager.
\<close>

fun is_resolve_or_persist :: "('lb, 'rb) event \<Rightarrow> bool" where
  "is_resolve_or_persist (EvNewRemoteBuilder sha r) = True"
| "is_resolve_or_persist (EvNewLocalBuilder r) = True"
| "is_resolve_or_persist (EvRemoteBuild b m r) = True"
| "is_resolve_or_persist (EvLocalBuild b m r) = True"
| "is_resolve_or_persist (EvSetSkipTaggingLayers v) = True"
| "is_resolve_or_persist (EvSaveBuildGeneralDetails r) = True"
| "is_resolve_or_persist (EvSaveBuildInfo m r) = True"
| "is_resolve_or_persist (EvSaveFileTransferDetails ds r) = True"
| "is_resolve_or_persist _ = False"

text \<open>The error an engine call reported: the native push command or the digest query.\<close>

fun engine_failure :: "('lb, 'rb) event \<Rightarrow> error option" where
  "engine_failure (EvRunNativeCmd params r) = r"
| "engine_failure (EvId i r) = r"
| "engine_failure _ = None"

definition is_engine_failure :: "('lb, 'rb) event \<Rightarrow> bool" where
  "is_engine_failure ev = (engine_failure ev \<noteq> None)"

text \<open>The native push command returned without an error.\<close>

fun is_push_ok :: "('lb, 'rb) event \<Rightarrow> bool" where
  "is_push_ok (EvRunNativeCmd params r) = (r = None)"
| "is_push_ok _ = False"

text \<open>The build-info general details were saved, or the tag resolver was constructed.\<close>

fun is_general_details_saved :: "('lb, 'rb) event \<Rightarrow> bool" where
  "is_general_details_saved (EvSaveBuildGeneralDetails r) = (r = None)"
| "is_general_details_saved _ = False"

fun is_tag_resolver_constructed :: "('lb, 'rb) event \<Rightarrow> bool" where
  "is_tag_resolver_constructed (EvNewLocalBuilder r) = (r = None)"
| "is_tag_resolver_constructed _ = False"

fun is_constructed :: "('lb, 'rb) event \<Rightarrow> bool" where
  "is_constructed (EvNewRemoteBuilder sha r) = (r = None)"
| "is_constructed (EvNewLocalBuilder r) = (r = None)"
| "is_constructed _ = False"

text \<open>The service manager was created: the last collaborator call before the resolver is chosen.\<close>

fun is_service_manager_created :: "('lb, 'rb) event \<Rightarrow> bool" where
  "is_service_manager_created (EvCreateServiceManager r) = (r = None)"
| "is_service_manager_created _ = False"

text \<open>
  The layers the constructed resolver holds once the build-info block has called \<open>Build\<close>
  with the configured module name.
\<close>

definition resolved_layers :: "('lb, 'rb) Collaborators \<Rightarrow> PushCommand \<Rightarrow> ResultItem list option" where
  "resolved_layers env pc =
     (if IsValidateSha pc
        then RemoteGetLayers env
               (snd (RemoteBuild env (remote_builder env pc) (GetModule (buildConfiguration pc))))
      else LocalGetLayers env
             (snd (LocalBuild env (local_builder env pc) (GetModule (buildConfiguration pc)))))"

text \<open>The events before strategy selection when every step succeeds.\<close>

definition push_trace :: "PushCommand \<Rightarrow> ('lb, 'rb) event list" where
  "push_trace pc =
     (if containerManagerType pc = DockerClient then [EvValidateClientApiVersion None] else [])
       @ [EvPerformLogin None, EvRunNativeCmd (cmdParams pc) None]"

section \<open>Example inputs\<close>

definition example_layer :: ResultItem where
  "example_layer =
     \<lparr>Repo = ''r'', Path = ''p'', Name = ''n'',
      Properties = [\<lparr>Key = ''sha256'', Value = ''abc''\<rparr>]\<rparr>"

text \<open>A layer without a digest property, and one with two of them.\<close>

definition plain_layer :: ResultItem where
  "plain_layer =
     \<lparr>Repo = ''r'', Path = ''p'', Name = ''m'',
      Properties = [\<lparr>Key = ''docker.manifest'', Value = ''latest''\<rparr>]\<rparr>"

definition twice_layer :: ResultItem where
  "twice_layer =
     \<lparr>Repo = ''r'', Path = ''p'', Name = ''k'',
      Properties = [\<lparr>Key = ''sha256'', Value = ''old''\<rparr>, \<lparr>Key = ''size'', Value = ''7''\<rparr>,
                    \<lparr>Key = ''sha256'', Value = ''new''\<rparr>]\<rparr>"

text \<open>
  Collaborators that all succeed. The state of the tag resolver is its skip-tagging flag;
  the digest resolver has no state.
\<close>

definition example_env :: "(bool, unit) Collaborators" where
  "example_env =
     \<lparr>pc_init = None,
      ValidateClientApiVersion = None,
      PerformLogin = (\<lambda>sd t. None),
      RunNativeCmd = (\<lambda>params. None),
      CreateServiceManagerWithThreads = (\<lambda>sd n. None),
      GetRepo = (''docker-local'', None),
      cm_Id = (\<lambda>i. (''sha256:abc'', None)),
      NewRemoteAgentBuildInfoBuilder = (\<lambda>i r n k p d. ((), None)),
      NewLocalAgentBuildInfoBuilder = (\<lambda>i r n k p. (False, None)),
      SaveBuildGeneralDetails = (\<lambda>n k p. None),
      RemoteBuild = (\<lambda>b m. ((Some (BuildInfo m), None), b)),
      RemoteGetLayers = (\<lambda>b. Some [example_layer]),
      LocalBuild = (\<lambda>b m. ((Some (BuildInfo m), None), b)),
      SetSkipTaggingLayers = (\<lambda>v b. v),
      LocalGetLayers = (\<lambda>b. Some [example_layer]),
      SaveBuildInfo = (\<lambda>n k p m. None),
      SaveFileTransferDetailsInTempFile = (\<lambda>ds. (''/tmp/details'', None))\<rparr>"

definition example_config :: BuildConfiguration where
  "example_config =
     \<lparr>IsCollectBuildInfo = (True, None),
      GetBuildName = (''build'', None),
      GetBuildNumber = (''1'', None),
      GetProject = ''proj'',
      GetModule = ''mod''\<rparr>"

definition example_pc :: PushCommand where
  "example_pc =
     \<lparr>containerManagerType = DockerClient,
      image = ''img:1'',
      cmdParams = [''push'', ''img:1''],
      serverDetails = Some \<lparr>ArtifactoryUrl = ''https://x''\<rparr>,
      buildConfiguration = example_config,
      validateSha = False,
      threads = 3,
      detailedSummary = True,
      result = None\<rparr>"

text \<open>The same command with other flags: collect build-info, detailed summary, validate by digest.\<close>

definition flags_pc :: "bool \<Rightarrow> bool \<Rightarrow> bool \<Rightarrow> PushCommand" where
  "flags_pc collect detailed digest =
     example_pc\<lparr>buildConfiguration := example_config\<lparr>IsCollectBuildInfo := (collect, None)\<rparr>,
                detailedSummary := detailed, validateSha := digest\<rparr>"

text \<open>Collaborators whose builders return a nil module and a nil error.\<close>

definition nil_module_env :: "(bool, unit) Collaborators" where
  "nil_module_env =
     example_env\<lparr>RemoteBuild := (\<lambda>b m. ((None, None), b)),
                 LocalBuild := (\<lambda>b m. ((None, None), b))\<rparr>"

text \<open>Collaborators that fail: the general details cannot be saved; the push fails.\<close>

definition no_details_env :: "(bool, unit) Collaborators" where
  "no_details_env = example_env\<lparr>SaveBuildGeneralDetails := (\<lambda>n k p. Some (Opaque ''disk full''))\<rparr>"

definition push_fails_env :: "(bool, unit) Collaborators" where
  "push_fails_env = example_env\<lparr>RunNativeCmd := (\<lambda>params. Some (Opaque ''denied''))\<rparr>"

section \<open>Projections of a run\<close>

lemma emit_proj [simp]:
  "trace_of (emit ev r) = ev # trace_of r"
  "outcome_of (emit ev r) = outcome_of r"
  "command_of (emit ev r) = command_of r"
  by (simp_all add: emit_def trace_of_def outcome_of_def command_of_def split: prod.splits)

lemma ret_proj [simp]:
  "trace_of (ret e pc) = []"
  "outcome_of (ret e pc) = Returned e"
  "command_of (ret e pc) = pc"
  by (simp_all add: ret_def trace_of_def outcome_of_def command_of_def)

lemma triple_proj [simp]:
  "trace_of (out, pc, tr) = tr"
  "outcome_of (out, pc, tr) = out"
  "command_of (out, pc, tr) = pc"
  by (simp_all add: trace_of_def outcome_of_def command_of_def)

text \<open>Unfolding a run at a concrete input.\<close>

lemmas run_defs = Run_def Run_login_push_def Run_after_push_def Run_standard_def Run_validateSha_def
  Run_standard_summary_def Run_validateSha_summary_def summary_return_def
  layersMapToFileTransferDetails_def ServerDetails_of_def CheckError_def IsDetailedSummary_def
  IsValidateSha_def Let_def

lemmas example_defs = example_env_def example_pc_def example_config_def flags_pc_def
  nil_module_env_def no_details_env_def push_fails_env_def

section \<open>Properties of the transfer-manifest builder\<close>

lemma properties_loop_filter:
  "properties_loop ps acc =
     (if filter is_sha256 ps = [] then acc else Value (last (filter is_sha256 ps)))"
  by (induction ps arbitrary: acc) (auto simp: is_sha256_def)

lemma layers_loop_map:
  "layers_loop url ls acc = acc @ map (layer_details url) ls"
  by (induction ls arbitrary: acc) auto

lemma layersMap_trace:
  "trace_of (layersMapToFileTransferDetails env url layers pc) =
     (case layers of
        None \<Rightarrow> []
      | Some ls \<Rightarrow>
          [EvSaveFileTransferDetails (layers_loop url ls [])
             (snd (SaveFileTransferDetailsInTempFile env (layers_loop url ls [])))])"
  by (simp add: layersMapToFileTransferDetails_def Let_def split: prod.split option.split)

lemma layersMap_outcome:
  "outcome_of (layersMapToFileTransferDetails env url (Some ls) pc) =
     Returned (snd (SaveFileTransferDetailsInTempFile env (layers_loop url ls [])))"
  by (simp add: layersMapToFileTransferDetails_def Let_def split: prod.split option.split)

lemma layersMap_count:
  "outcome_of (layersMapToFileTransferDetails env url (Some ls) pc) = Returned None \<Longrightarrow>
   map_option SuccessCount (result (command_of (layersMapToFileTransferDetails env url (Some ls) pc)))
     = Some (int (length ls))"
  by (simp add: layersMapToFileTransferDetails_def Let_def SetResult_def SetSuccessCount_def
        SetReader_def new_Result_def SuccessCount_def layers_loop_map
      split: prod.split option.split prod.split_asm option.split_asm)

lemma Join_rpn: "Join [''r'', ''p'', ''n''] = ''r/p/n''"
  by (simp add: Join_def Clean_def not_slash_def)

text \<open>
  Claim C3. For the single resolved layer with repo \<open>r\<close>, path \<open>p\<close>, name \<open>n\<close> and the
  property \<open>sha256 = abc\<close>, and the base URL \<open>https://x\<close>, the transfer manifest handed
  to the serializer is exactly one record: target path \<open>r/p/n\<close>, repository URL
  \<open>https://x\<close>, digest \<open>abc\<close>.
\<close>

theorem C3_single_layer:
  "manifests (trace_of (layersMapToFileTransferDetails env ''https://x''
      (Some [\<lparr>Repo = ''r'', Path = ''p'', Name = ''n'',
              Properties = [\<lparr>Key = ''sha256'', Value = ''abc''\<rparr>]\<rparr>]) pc))
   = [[\<lparr>SourcePath = [], TargetPath = ''r/p/n'', RtUrl = ''https://x'', Sha256 = ''abc''\<rparr>]]"
  by (simp add: layersMap_trace layer_details_def Join_rpn)

text \<open>The same at the example collaborators and command.\<close>

theorem C3_single_layer_witness:
  "manifests (trace_of (layersMapToFileTransferDetails example_env ''https://x''
      (Some [example_layer]) example_pc))
   = [[\<lparr>SourcePath = [], TargetPath = ''r/p/n'', RtUrl = ''https://x'', Sha256 = ''abc''\<rparr>]]"
  using C3_single_layer [of example_env example_pc] by (simp add: example_layer_def)

text \<open>
  Claim C4. When the layer at position \<open>i\<close> has no property with key \<open>sha256\<close>, the
  record derived from it has an empty digest, and the builder ends with whatever the
  serializer returns: the missing property is never the cause of an error.
\<close>

theorem C4_absent_sha256:
  assumes "i < length layers" and "\<not> list_ex is_sha256 (Properties (layers ! i))"
  shows "manifests (trace_of (layersMapToFileTransferDetails env url (Some layers) pc))
           = [layers_loop url layers []]
       \<and> length (layers_loop url layers []) = length layers
       \<and> Sha256 (layers_loop url layers [] ! i) = []
       \<and> outcome_of (layersMapToFileTransferDetails env url (Some layers) pc)
           = Returned (snd (SaveFileTransferDetailsInTempFile env (layers_loop url layers [])))"
proof -
  have "filter is_sha256 (Properties (layers ! i)) = []"
    using assms(2) by (simp add: list_ex_iff filter_empty_conv)
  then have "Sha256 (layer_details url (layers ! i)) = []"
    by (simp add: layer_details_def properties_loop_filter)
  with assms(1) show ?thesis
    by (simp add: layersMap_trace layersMap_outcome layers_loop_map)
qed

text \<open>A layer list whose second layer has no digest property.\<close>

theorem C4_absent_sha256_witness:
  "Sha256 (layers_loop ''https://x'' [example_layer, plain_layer] [] ! 1) = []
   \<and> outcome_of (layersMapToFileTransferDetails example_env ''https://x''
        (Some [example_layer, plain_layer]) example_pc) = Returned None"
  using C4_absent_sha256 [of 1 "[example_layer, plain_layer]" example_env "''https://x''" example_pc]
  by (simp add: plain_layer_def is_sha256_def example_env_def)

text \<open>
  Claim C5. The builder produces one record per layer, in the order of the layers, and
  the success count of the result it sets is the number of layers.
\<close>

theorem C5_one_detail_per_layer:
  "layers_loop url layers [] = map (layer_details url) layers
   \<and> length (layers_loop url layers []) = length layers
   \<and> manifests (trace_of (layersMapToFileTransferDetails env url (Some layers) pc))
       = [map (layer_details url) layers]
   \<and> (outcome_of (layersMapToFileTransferDetails env url (Some layers) pc) = Returned None \<longrightarrow>
        map_option SuccessCount
          (result (command_of (layersMapToFileTransferDetails env url (Some layers) pc)))
        = Some (int (length layers)))"
  by (simp add: layersMap_trace layers_loop_map layersMap_count)

text \<open>Three layers give three records in the same order and a count of three.\<close>

theorem C5_one_detail_per_layer_witness:
  "outcome_of (layersMapToFileTransferDetails example_env ''https://x''
      (Some [example_layer, plain_layer, twice_layer]) example_pc) = Returned None
   \<and> map TargetPath (layers_loop ''https://x'' [example_layer, plain_layer, twice_layer] [])
       = [''r/p/n'', ''r/p/m'', ''r/p/k'']
   \<and> map_option SuccessCount
        (result (command_of (layersMapToFileTransferDetails example_env ''https://x''
           (Some [example_layer, plain_layer, twice_layer]) example_pc))) = Some 3"
  using C5_one_detail_per_layer [of "''https://x''" "[example_layer, plain_layer, twice_layer]"
          example_env example_pc]
  by (simp add: layersMap_outcome example_env_def layer_details_def example_layer_def
        plain_layer_def twice_layer_def Join_def Clean_def not_slash_def)

text \<open>
  Claim C10. When the layer at position \<open>i\<close> has more than one property with key
  \<open>sha256\<close>, the transfer manifest that \<^verbatim>\<open>layersMapToFileTransferDetails\<close> hands to
  the serializer has one record per layer, and the digest of the record at position \<open>i\<close>
  is the value of the last of these properties in the layer's property order.
\<close>

theorem C10_last_sha256_wins:
  assumes "i < length layers" and "1 < length (filter is_sha256 (Properties (layers ! i)))"
  shows "manifests (trace_of (layersMapToFileTransferDetails env url (Some layers) pc))
           = [layers_loop url layers []]
       \<and> length (layers_loop url layers []) = length layers
       \<and> Sha256 (layers_loop url layers [] ! i)
           = Value (last (filter is_sha256 (Properties (layers ! i))))
       \<and> (\<exists>details.
             manifests (trace_of (layersMapToFileTransferDetails env url (Some layers) pc)) = [details]
             \<and> Sha256 (details ! i) = Value (last (filter is_sha256 (Properties (layers ! i)))))"
proof -
  have "filter is_sha256 (Properties (layers ! i)) \<noteq> []"
    using assms(2) by auto
  then have "Sha256 (layer_details url (layers ! i))
               = Value (last (filter is_sha256 (Properties (layers ! i))))"
    by (simp add: layer_details_def properties_loop_filter)
  with assms(1) show ?thesis
    by (simp add: layersMap_trace layers_loop_map)
qed

text \<open>
  A layer with the digests \<open>old\<close> and \<open>new\<close>, in this order: the manifest written for it
  carries \<open>new\<close>.
\<close>

theorem C10_last_sha256_wins_witness:
  "1 < length (filter is_sha256 (Properties twice_layer))
   \<and> manifests (trace_of (layersMapToFileTransferDetails example_env ''https://x''
        (Some [twice_layer]) example_pc))
       = [[\<lparr>SourcePath = [], TargetPath = ''r/p/k'', RtUrl = ''https://x'', Sha256 = ''new''\<rparr>]]"
  using C10_last_sha256_wins [of 0 "[twice_layer]" example_env "''https://x''" example_pc]
  by (simp add: twice_layer_def is_sha256_def layer_details_def Join_def Clean_def not_slash_def)

section \<open>Build-info module absent\<close>

lemma summary_return_trace:
  "trace_of (summary_return env pc sd layers) =
     (case sd of
        None \<Rightarrow> []
      | Some s \<Rightarrow>
          (case layers of
             None \<Rightarrow> []
           | Some ls \<Rightarrow>
               [EvSaveFileTransferDetails (layers_loop (ArtifactoryUrl s) ls [])
                  (snd (SaveFileTransferDetailsInTempFile env (layers_loop (ArtifactoryUrl s) ls [])))]))"
  by (simp add: summary_return_def layersMap_trace split: option.split)

lemma summary_return_no_save: "\<not> list_ex is_SaveBuildInfo (trace_of (summary_return env pc sd layers))"
  by (simp add: summary_return_trace split: option.split)

lemma summary_return_no_Build: "filter is_Build (trace_of (summary_return env pc sd layers)) = []"
  by (simp add: summary_return_trace split: option.split)

lemma no_Build_no_nil: "filter is_Build tr = [] \<Longrightarrow> \<not> list_ex is_nil_Build tr"
proof (induction tr)
  case Nil
  then show ?case by simp
next
  case (Cons ev tr)
  then show ?case by (cases ev) (simp_all split: if_split_asm)
qed

lemma validateSha_summary_no_save:
  "\<not> list_ex is_SaveBuildInfo (trace_of (Run_validateSha_summary env pc sd toCollect rb))"
  by (simp add: Run_validateSha_summary_def summary_return_no_save split: option.split prod.split)

lemma standard_summary_no_save:
  "\<not> list_ex is_SaveBuildInfo (trace_of (Run_standard_summary env pc sd toCollect lb))"
  by (simp add: Run_standard_summary_def summary_return_no_save split: option.split prod.split)

lemma validateSha_summary_no_Build:
  "toCollect \<Longrightarrow> filter is_Build (trace_of (Run_validateSha_summary env pc sd toCollect rb)) = []"
  by (simp add: Run_validateSha_summary_def summary_return_no_Build)

lemma standard_summary_no_Build:
  "toCollect \<Longrightarrow> filter is_Build (trace_of (Run_standard_summary env pc sd toCollect lb)) = []"
  by (simp add: Run_standard_summary_def summary_return_no_Build)

lemma validateSha_nil_no_save:
  "list_ex is_nil_Build (trace_of (Run_validateSha env pc sd toCollect bn bnr repo)) \<Longrightarrow>
   \<not> list_ex is_SaveBuildInfo (trace_of (Run_validateSha env pc sd toCollect bn bnr repo))"
  by (simp add: Run_validateSha_def validateSha_summary_no_save
        no_Build_no_nil [OF validateSha_summary_no_Build]
      split: option.split_asm prod.split_asm if_split_asm)

lemma standard_nil_no_save:
  "list_ex is_nil_Build (trace_of (Run_standard env pc sd toCollect bn bnr repo)) \<Longrightarrow>
   \<not> list_ex is_SaveBuildInfo (trace_of (Run_standard env pc sd toCollect bn bnr repo))"
  by (simp add: Run_standard_def standard_summary_no_save
        no_Build_no_nil [OF standard_summary_no_Build]
      split: option.split_asm prod.split_asm if_split_asm)

lemma validateSha_nil_outcome:
  "toCollect \<Longrightarrow> list_ex is_nil_Build (trace_of (Run_validateSha env pc sd toCollect bn bnr repo)) \<Longrightarrow>
   outcome_of (Run_validateSha env pc sd toCollect bn bnr repo)
     = Returned (Some (Errorf ''failed to create build info module: module is nil''))"
  by (simp add: Run_validateSha_def CheckError_def
        no_Build_no_nil [OF validateSha_summary_no_Build]
      split: option.split_asm prod.split_asm if_split_asm)

lemma after_push_nil_no_save:
  "list_ex is_nil_Build (trace_of (Run_after_push env pc sd)) \<Longrightarrow>
   \<not> list_ex is_SaveBuildInfo (trace_of (Run_after_push env pc sd))"
  by (auto simp add: Run_after_push_def validateSha_nil_no_save standard_nil_no_save
      split: option.split_asm prod.split_asm if_split_asm)

lemma after_push_nil_outcome:
  "IsValidateSha pc \<Longrightarrow> fst (IsCollectBuildInfo (buildConfiguration pc)) \<Longrightarrow>
   list_ex is_nil_Build (trace_of (Run_after_push env pc sd)) \<Longrightarrow>
   outcome_of (Run_after_push env pc sd)
     = Returned (Some (Errorf ''failed to create build info module: module is nil''))"
  by (auto simp add: Run_after_push_def validateSha_nil_outcome
      split: option.split_asm prod.split_asm if_split_asm)

lemma login_push_nil_no_save:
  "list_ex is_nil_Build (trace_of (Run_login_push env pc)) \<Longrightarrow>
   \<not> list_ex is_SaveBuildInfo (trace_of (Run_login_push env pc))"
  by (auto simp add: Run_login_push_def ServerDetails_of_def CheckError_def after_push_nil_no_save
      split: option.split_asm prod.split_asm if_split_asm)

lemma login_push_nil_outcome:
  "IsValidateSha pc \<Longrightarrow> fst (IsCollectBuildInfo (buildConfiguration pc)) \<Longrightarrow>
   list_ex is_nil_Build (trace_of (Run_login_push env pc)) \<Longrightarrow>
   outcome_of (Run_login_push env pc)
     = Returned (Some (Errorf ''failed to create build info module: module is nil''))"
  by (auto simp add: Run_login_push_def ServerDetails_of_def CheckError_def after_push_nil_outcome
      split: option.split_asm prod.split_asm if_split_asm)

text \<open>
  Claim C1, as the code has it. In every run in which a \<open>Build\<close> call returns a nil
  module together with a nil error, \<open>SaveBuildInfo\<close> is never called, whichever resolver
  is in use; and when the digest-based resolver is in use and build-info collection is
  requested, \<^verbatim>\<open>Run\<close> returns the error
  \<open>failed to create build info module: module is nil\<close>.
\<close>

theorem C1_nil_module:
  assumes "list_ex is_nil_Build (trace_of (Run env pc))"
  shows "\<not> list_ex is_SaveBuildInfo (trace_of (Run env pc))
       \<and> (IsValidateSha pc \<and> fst (IsCollectBuildInfo (buildConfiguration pc)) \<longrightarrow>
            outcome_of (Run env pc)
              = Returned (Some (Errorf ''failed to create build info module: module is nil'')))"
  using assms
  by (auto simp add: Run_def login_push_nil_no_save login_push_nil_outcome
      split: option.split_asm if_split_asm)

text \<open>The digest path with both flags set and a builder that returns no module.\<close>

theorem C1_nil_module_witness:
  "list_ex is_nil_Build (trace_of (Run nil_module_env (flags_pc True True True)))
   \<and> \<not> list_ex is_SaveBuildInfo (trace_of (Run nil_module_env (flags_pc True True True)))
   \<and> outcome_of (Run nil_module_env (flags_pc True True True))
       = Returned (Some (Errorf ''failed to create build info module: module is nil''))"
  using C1_nil_module [of nil_module_env "flags_pc True True True"]
  by (simp add: run_defs example_defs)

text \<open>
  Claim C1 as stated fails. On the digest path without build-info collection, the
  summary's \<open>Build\<close> call returns a nil module and a nil error, the module is discarded
  and \<^verbatim>\<open>Run\<close> returns nil. On the tag path with build-info collection, a \<open>Build\<close> call
  that returns a nil module and a nil error makes \<^verbatim>\<open>Run\<close> return nil as well.
\<close>

theorem C1_nil_module_counterexample:
  "list_ex is_nil_Build (trace_of (Run nil_module_env (flags_pc False True True)))
   \<and> outcome_of (Run nil_module_env (flags_pc False True True)) = Returned None
   \<and> fst (IsCollectBuildInfo (buildConfiguration (flags_pc True True False)))
   \<and> list_ex is_nil_Build (trace_of (Run nil_module_env (flags_pc True True False)))
   \<and> outcome_of (Run nil_module_env (flags_pc True True False)) = Returned None"
  by (simp add: run_defs example_defs)

section \<open>Neither flag set\<close>

lemma after_push_no_flags:
  "IsCollectBuildInfo (buildConfiguration pc) = (False, None) \<Longrightarrow> \<not> IsDetailedSummary pc \<Longrightarrow>
   Run_after_push env pc sd = ret None pc"
  by (simp add: Run_after_push_def)

lemma login_push_no_flags:
  assumes "IsCollectBuildInfo (buildConfiguration pc) = (False, None)" and "\<not> IsDetailedSummary pc"
    and "list_ex is_push_ok (trace_of (Run_login_push env pc))"
  shows "outcome_of (Run_login_push env pc) = Returned None
       \<and> command_of (Run_login_push env pc) = pc
       \<and> trace_of (Run_login_push env pc) = [EvPerformLogin None, EvRunNativeCmd (cmdParams pc) None]"
  using assms(3)
  by (auto simp add: Run_login_push_def ServerDetails_of_def CheckError_def
        after_push_no_flags [OF assms(1,2)]
      split: option.split_asm)

text \<open>
  Claim C2, as the code has it. When build-info collection and the detailed summary are
  both off and the native push command returned without an error, \<^verbatim>\<open>Run\<close> returns
  nil, leaves the command (and so its result pointer) as it was, and has called nothing but
  the client version check, the login and the push.
\<close>

theorem C2_no_flags:
  assumes "IsCollectBuildInfo (buildConfiguration pc) = (False, None)" and "\<not> IsDetailedSummary pc"
    and "list_ex is_push_ok (trace_of (Run env pc))"
  shows "outcome_of (Run env pc) = Returned None
       \<and> command_of (Run env pc) = pc
       \<and> trace_of (Run env pc) = push_trace pc"
  using assms(3) login_push_no_flags [OF assms(1,2), of env]
  by (auto simp add: Run_def push_trace_def split: option.split_asm if_split_asm)

text \<open>The example command with both flags off.\<close>

theorem C2_no_flags_witness:
  "list_ex is_push_ok (trace_of (Run example_env (flags_pc False False False)))
   \<and> outcome_of (Run example_env (flags_pc False False False)) = Returned None
   \<and> command_of (Run example_env (flags_pc False False False)) = flags_pc False False False
   \<and> trace_of (Run example_env (flags_pc False False False))
       = [EvValidateClientApiVersion None, EvPerformLogin None,
          EvRunNativeCmd [''push'', ''img:1''] None]"
  using C2_no_flags [of "flags_pc False False False" example_env]
  by (simp add: run_defs example_defs push_trace_def)

text \<open>
  Claim C2 as stated fails: with both flags off and a successful push the command has no
  result at all afterwards (the pointer is still nil), so there is no result whose success
  count is 0.
\<close>

theorem C2_no_result_counterexample:
  "IsCollectBuildInfo (buildConfiguration (flags_pc False False False)) = (False, None)
   \<and> \<not> detailedSummary (flags_pc False False False)
   \<and> list_ex is_push_ok (trace_of (Run example_env (flags_pc False False False)))
   \<and> outcome_of (Run example_env (flags_pc False False False)) = Returned None
   \<and> result (command_of (Run example_env (flags_pc False False False))) = None"
  by (simp add: run_defs example_defs)

section \<open>Engine failures\<close>

lemma is_engine_failure_simps [simp]:
  "is_engine_failure (EvRunNativeCmd params r) = (r \<noteq> None)"
  "is_engine_failure (EvId i r) = (r \<noteq> None)"
  "\<not> is_engine_failure (EvValidateClientApiVersion r)"
  "\<not> is_engine_failure (EvPerformLogin r)"
  "\<not> is_engine_failure (EvCreateServiceManager r)"
  "\<not> is_engine_failure (EvNewRemoteBuilder sha r)"
  "\<not> is_engine_failure (EvNewLocalBuilder r)"
  "\<not> is_engine_failure (EvSaveBuildGeneralDetails r)"
  "\<not> is_engine_failure (EvRemoteBuild rb m br)"
  "\<not> is_engine_failure (EvLocalBuild lb m br)"
  "\<not> is_engine_failure (EvSetSkipTaggingLayers v)"
  "\<not> is_engine_failure (EvSaveBuildInfo bi r)"
  "\<not> is_engine_failure (EvSaveFileTransferDetails ds r)"
  by (simp_all add: is_engine_failure_def)

lemma last_Cons_engine_failure:
  "list_ex is_engine_failure tr \<Longrightarrow> last (ev # tr) = last tr"
  by (cases tr) simp_all

lemma summary_return_no_engine_failure:
  "\<not> list_ex is_engine_failure (trace_of (summary_return env pc sd layers))"
  by (simp add: summary_return_trace split: option.split)

lemma validateSha_summary_no_engine_failure:
  "\<not> list_ex is_engine_failure (trace_of (Run_validateSha_summary env pc sd toCollect rb))"
  by (simp add: Run_validateSha_summary_def summary_return_no_engine_failure
      split: option.split prod.split)

lemma standard_summary_no_engine_failure:
  "\<not> list_ex is_engine_failure (trace_of (Run_standard_summary env pc sd toCollect lb))"
  by (simp add: Run_standard_summary_def summary_return_no_engine_failure
      split: option.split prod.split)

lemma standard_no_engine_failure:
  "\<not> list_ex is_engine_failure (trace_of (Run_standard env pc sd toCollect bn bnr repo))"
  by (simp add: Run_standard_def standard_summary_no_engine_failure
      split: option.split prod.split)

lemma validateSha_engine_failure:
  assumes "list_ex is_engine_failure (trace_of (Run_validateSha env pc sd toCollect bn bnr repo))"
  shows "is_engine_failure (last (trace_of (Run_validateSha env pc sd toCollect bn bnr repo)))
       \<and> outcome_of (Run_validateSha env pc sd toCollect bn bnr repo)
           = Returned (engine_failure (last (trace_of (Run_validateSha env pc sd toCollect bn bnr repo))))
       \<and> \<not> list_ex is_resolve_or_persist (trace_of (Run_validateSha env pc sd toCollect bn bnr repo))
       \<and> command_of (Run_validateSha env pc sd toCollect bn bnr repo) = pc"
  using assms
  by (auto simp add: Run_validateSha_def validateSha_summary_no_engine_failure
      split: option.split_asm prod.split_asm if_split_asm)

lemma after_push_engine_failure:
  assumes "list_ex is_engine_failure (trace_of (Run_after_push env pc sd))"
  shows "is_engine_failure (last (trace_of (Run_after_push env pc sd)))
       \<and> outcome_of (Run_after_push env pc sd)
           = Returned (engine_failure (last (trace_of (Run_after_push env pc sd))))
       \<and> \<not> list_ex is_resolve_or_persist (trace_of (Run_after_push env pc sd))
       \<and> command_of (Run_after_push env pc sd) = pc"
  using assms
  by (auto simp add: Run_after_push_def standard_no_engine_failure validateSha_engine_failure
        last_Cons_engine_failure
      split: option.split_asm prod.split_asm if_split_asm)

lemma login_push_engine_failure:
  assumes "list_ex is_engine_failure (trace_of (Run_login_push env pc))"
  shows "is_engine_failure (last (trace_of (Run_login_push env pc)))
       \<and> outcome_of (Run_login_push env pc)
           = Returned (engine_failure (last (trace_of (Run_login_push env pc))))
       \<and> \<not> list_ex is_resolve_or_persist (trace_of (Run_login_push env pc))
       \<and> command_of (Run_login_push env pc) = pc"
  using assms
  by (auto simp add: Run_login_push_def ServerDetails_of_def CheckError_def
        after_push_engine_failure last_Cons_engine_failure
      split: option.split_asm prod.split_asm if_split_asm)

text \<open>
  Claim C9. When the native push command or the engine's digest query returns an error,
  that call is the last one \<^verbatim>\<open>Run\<close> makes, \<^verbatim>\<open>Run\<close> returns that error, no resolver is
  constructed or invoked, nothing is persisted, no transfer manifest is written, and the
  command is unchanged.
\<close>

theorem C9_engine_failure:
  assumes "list_ex is_engine_failure (trace_of (Run env pc))"
  shows "is_engine_failure (last (trace_of (Run env pc)))
       \<and> outcome_of (Run env pc) = Returned (engine_failure (last (trace_of (Run env pc))))
       \<and> \<not> list_ex is_resolve_or_persist (trace_of (Run env pc))
       \<and> command_of (Run env pc) = pc"
  using assms
  by (auto simp add: Run_def login_push_engine_failure last_Cons_engine_failure
      split: option.split_asm prod.split_asm if_split_asm)

text \<open>A push that the engine refuses.\<close>

theorem C9_engine_failure_witness:
  "list_ex is_engine_failure (trace_of (Run push_fails_env example_pc))
   \<and> outcome_of (Run push_fails_env example_pc) = Returned (Some (Opaque ''denied''))
   \<and> \<not> list_ex is_resolve_or_persist (trace_of (Run push_fails_env example_pc))
   \<and> command_of (Run push_fails_env example_pc) = example_pc"
  using C9_engine_failure [of push_fails_env example_pc]
  by (simp add: run_defs example_defs)

section \<open>Skip-tagging\<close>

lemma summary_return_filters:
  "filter is_tag_event (trace_of (summary_return env pc sd layers)) = []"
  "filter is_digest_event (trace_of (summary_return env pc sd layers)) = []"
  "filter is_constructor (trace_of (summary_return env pc sd layers)) = []"
  "\<not> list_ex is_SetSkipTaggingLayers (trace_of (summary_return env pc sd layers))"
  "\<not> list_ex is_general_details_saved (trace_of (summary_return env pc sd layers))"
  "remote_build_states (trace_of (summary_return env pc sd layers)) = []"
  "local_build_states (trace_of (summary_return env pc sd layers)) = []"
  "constructor_digests (trace_of (summary_return env pc sd layers)) = []"
  by (simp_all add: summary_return_trace split: option.split)

lemma standard_summary_tag_events:
  "IsDetailedSummary pc \<Longrightarrow>
   filter is_tag_event (trace_of (Run_standard_summary env pc sd False lb))
     = [EvSetSkipTaggingLayers True,
        EvLocalBuild (SetSkipTaggingLayers env True lb) []
          (fst (LocalBuild env (SetSkipTaggingLayers env True lb) []))]"
  by (simp add: Run_standard_summary_def summary_return_filters split: option.split prod.split)

lemma standard_tag_events:
  "IsDetailedSummary pc \<Longrightarrow>
   list_ex is_tag_resolver_constructed (trace_of (Run_standard env pc sd False bn bnr repo)) \<Longrightarrow>
   filter is_tag_event (trace_of (Run_standard env pc sd False bn bnr repo))
     = [EvNewLocalBuilder None, EvSetSkipTaggingLayers True,
        EvLocalBuild (SetSkipTaggingLayers env True
            (fst (NewLocalAgentBuildInfoBuilder env (image pc) repo bn bnr
                    (GetProject (buildConfiguration pc))))) []
          (fst (LocalBuild env (SetSkipTaggingLayers env True
            (fst (NewLocalAgentBuildInfoBuilder env (image pc) repo bn bnr
                    (GetProject (buildConfiguration pc))))) []))]"
  by (auto simp add: Run_standard_def standard_summary_tag_events
      split: option.split_asm prod.split_asm)

lemma validateSha_summary_filters:
  "filter is_tag_event (trace_of (Run_validateSha_summary env pc sd toCollect rb)) = []"
  "filter is_constructor (trace_of (Run_validateSha_summary env pc sd toCollect rb)) = []"
  "\<not> list_ex is_SetSkipTaggingLayers (trace_of (Run_validateSha_summary env pc sd toCollect rb))"
  "\<not> list_ex is_general_details_saved (trace_of (Run_validateSha_summary env pc sd toCollect rb))"
  "remote_build_states (trace_of (Run_validateSha_summary env pc sd toCollect rb))
     = (if IsDetailedSummary pc \<and> \<not> toCollect then [rb] else [])"
  "local_build_states (trace_of (Run_validateSha_summary env pc sd toCollect rb)) = []"
  "constructor_digests (trace_of (Run_validateSha_summary env pc sd toCollect rb)) = []"
  by (simp_all add: Run_validateSha_summary_def summary_return_filters split: option.split prod.split)

lemma standard_summary_filters:
  "filter is_digest_event (trace_of (Run_standard_summary env pc sd toCollect lb)) = []"
  "filter is_constructor (trace_of (Run_standard_summary env pc sd toCollect lb)) = []"
  "toCollect \<Longrightarrow> \<not> list_ex is_SetSkipTaggingLayers (trace_of (Run_standard_summary env pc sd toCollect lb))"
  "\<not> list_ex is_general_details_saved (trace_of (Run_standard_summary env pc sd toCollect lb))"
  "remote_build_states (trace_of (Run_standard_summary env pc sd toCollect lb)) = []"
  "local_build_states (trace_of (Run_standard_summary env pc sd toCollect lb))
     = (if IsDetailedSummary pc \<and> \<not> toCollect then [SetSkipTaggingLayers env True lb] else [])"
  "constructor_digests (trace_of (Run_standard_summary env pc sd toCollect lb)) = []"
  by (simp_all add: Run_standard_summary_def summary_return_filters split: option.split prod.split)

lemma validateSha_filters:
  "filter is_tag_event (trace_of (Run_validateSha env pc sd toCollect bn bnr repo)) = []"
  "\<not> list_ex is_SetSkipTaggingLayers (trace_of (Run_validateSha env pc sd toCollect bn bnr repo))"
  "local_build_states (trace_of (Run_validateSha env pc sd toCollect bn bnr repo)) = []"
  "length (filter is_constructor (trace_of (Run_validateSha env pc sd toCollect bn bnr repo))) \<le> Suc 0"
  "set (constructor_digests (trace_of (Run_validateSha env pc sd toCollect bn bnr repo)))
     \<subseteq> {fst (cm_Id env (image pc))}"
  by (simp_all add: Run_validateSha_def validateSha_summary_filters split: option.split prod.split)

lemma validateSha_one_constructor:
  "snd (cm_Id env (image pc)) = None \<Longrightarrow>
   length (filter is_constructor (trace_of (Run_validateSha env pc sd toCollect bn bnr repo))) = Suc 0"
  by (auto simp add: Run_validateSha_def validateSha_summary_filters split: option.split prod.split)

lemma validateSha_build_states:
  "set (remote_build_states (trace_of (Run_validateSha env pc sd toCollect bn bnr repo)))
     \<subseteq> {fst (NewRemoteAgentBuildInfoBuilder env (image pc) repo bn bnr
               (GetProject (buildConfiguration pc)) (fst (cm_Id env (image pc))))}"
  by (auto simp add: Run_validateSha_def validateSha_summary_filters
      split: option.split prod.split if_split_asm)

lemma standard_filters:
  "filter is_digest_event (trace_of (Run_standard env pc sd toCollect bn bnr repo)) = []"
  "remote_build_states (trace_of (Run_standard env pc sd toCollect bn bnr repo)) = []"
  "constructor_digests (trace_of (Run_standard env pc sd toCollect bn bnr repo)) = []"
  "length (filter is_constructor (trace_of (Run_standard env pc sd toCollect bn bnr repo))) = Suc 0"
  "toCollect \<Longrightarrow> \<not> list_ex is_SetSkipTaggingLayers (trace_of (Run_standard env pc sd toCollect bn bnr repo))"
  by (simp_all add: Run_standard_def standard_summary_filters split: option.split prod.split)

lemma standard_build_states:
  "set (local_build_states (trace_of (Run_standard env pc sd toCollect bn bnr repo)))
     \<subseteq> {fst (NewLocalAgentBuildInfoBuilder env (image pc) repo bn bnr
               (GetProject (buildConfiguration pc))),
         SetSkipTaggingLayers env True
           (fst (NewLocalAgentBuildInfoBuilder env (image pc) repo bn bnr
               (GetProject (buildConfiguration pc))))}"
  by (auto simp add: Run_standard_def standard_summary_filters
      split: option.split prod.split if_split_asm)

lemma validateSha_not_tag_constructed:
  "\<not> list_ex is_tag_resolver_constructed (trace_of (Run_validateSha env pc sd toCollect bn bnr repo))"
proof -
  have "list_ex is_tag_resolver_constructed tr \<Longrightarrow> filter is_tag_event tr \<noteq> []"
    for tr :: "('a, 'b) event list"
  proof (induction tr)
    case Nil
    then show ?case by simp
  next
    case (Cons ev tr)
    then show ?case by (cases ev) auto
  qed
  then show ?thesis
    using validateSha_filters(1) by blast
qed

subsection \<open>After the push\<close>

lemma after_push_tag_events:
  assumes "\<not> fst (IsCollectBuildInfo (buildConfiguration pc))" and "IsDetailedSummary pc"
    and "list_ex is_tag_resolver_constructed (trace_of (Run_after_push env pc sd))"
  shows "filter is_tag_event (trace_of (Run_after_push env pc sd))
           = [EvNewLocalBuilder None, EvSetSkipTaggingLayers True,
              EvLocalBuild (SetSkipTaggingLayers env True (local_builder env pc)) []
                (fst (LocalBuild env (SetSkipTaggingLayers env True (local_builder env pc)) []))]"
  using assms
  by (auto simp add: Run_after_push_def local_builder_def standard_tag_events
        validateSha_not_tag_constructed
      split: option.split_asm prod.split_asm if_split_asm)

lemma after_push_no_skip:
  "fst (IsCollectBuildInfo (buildConfiguration pc)) \<or> IsValidateSha pc \<Longrightarrow>
   \<not> list_ex is_SetSkipTaggingLayers (trace_of (Run_after_push env pc sd))"
  by (auto simp add: Run_after_push_def standard_filters validateSha_filters
      split: option.split_asm prod.split_asm if_split_asm)

lemma after_push_remote_states:
  "set (remote_build_states (trace_of (Run_after_push env pc sd))) \<subseteq> {remote_builder env pc}"
  using validateSha_build_states [of env pc sd "fst (IsCollectBuildInfo (buildConfiguration pc))"
          "fst (GetBuildName (buildConfiguration pc))" "fst (GetBuildNumber (buildConfiguration pc))"
          "fst (GetRepo env)"]
  by (auto simp add: Run_after_push_def remote_builder_def standard_filters
      split: option.split_asm prod.split_asm if_split_asm)

lemma after_push_local_states:
  "set (local_build_states (trace_of (Run_after_push env pc sd)))
     \<subseteq> {local_builder env pc, SetSkipTaggingLayers env True (local_builder env pc)}"
  using standard_build_states [of env pc sd "fst (IsCollectBuildInfo (buildConfiguration pc))"
          "fst (GetBuildName (buildConfiguration pc))" "fst (GetBuildNumber (buildConfiguration pc))"
          "fst (GetRepo env)"]
  by (auto simp add: Run_after_push_def local_builder_def validateSha_filters
      split: option.split_asm prod.split_asm if_split_asm)

lemma after_push_strategy:
  "length (filter is_constructor (trace_of (Run_after_push env pc sd))) \<le> Suc 0"
  "IsValidateSha pc \<Longrightarrow> filter is_tag_event (trace_of (Run_after_push env pc sd)) = []"
  "\<not> IsValidateSha pc \<Longrightarrow> filter is_digest_event (trace_of (Run_after_push env pc sd)) = []"
  "set (constructor_digests (trace_of (Run_after_push env pc sd))) \<subseteq> {fst (cm_Id env (image pc))}"
  by (simp_all add: Run_after_push_def standard_filters validateSha_filters
      split: option.split prod.split)

lemma after_push_one_constructor:
  assumes "list_ex is_service_manager_created (trace_of (Run_after_push env pc sd))"
    and "snd (GetRepo env) = None"
    and "IsValidateSha pc \<longrightarrow> snd (cm_Id env (image pc)) = None"
  shows "length (filter is_constructor (trace_of (Run_after_push env pc sd))) = Suc 0"
  using assms
  by (auto simp add: Run_after_push_def standard_filters validateSha_filters
        validateSha_one_constructor
      split: option.split_asm prod.split_asm if_split_asm)

subsection \<open>Login and push\<close>

lemma login_push_tag_events:
  assumes "\<not> fst (IsCollectBuildInfo (buildConfiguration pc))" and "IsDetailedSummary pc"
    and "list_ex is_tag_resolver_constructed (trace_of (Run_login_push env pc))"
  shows "filter is_tag_event (trace_of (Run_login_push env pc))
           = [EvNewLocalBuilder None, EvSetSkipTaggingLayers True,
              EvLocalBuild (SetSkipTaggingLayers env True (local_builder env pc)) []
                (fst (LocalBuild env (SetSkipTaggingLayers env True (local_builder env pc)) []))]"
  using assms
  by (auto simp add: Run_login_push_def ServerDetails_of_def CheckError_def after_push_tag_events
      split: option.split_asm)

lemma login_push_no_skip:
  "fst (IsCollectBuildInfo (buildConfiguration pc)) \<or> IsValidateSha pc \<Longrightarrow>
   \<not> list_ex is_SetSkipTaggingLayers (trace_of (Run_login_push env pc))"
  by (auto simp add: Run_login_push_def ServerDetails_of_def CheckError_def after_push_no_skip
      split: option.split_asm)

lemma login_push_build_states:
  "set (remote_build_states (trace_of (Run_login_push env pc))) \<subseteq> {remote_builder env pc}"
  "set (local_build_states (trace_of (Run_login_push env pc)))
     \<subseteq> {local_builder env pc, SetSkipTaggingLayers env True (local_builder env pc)}"
  using after_push_remote_states [of env pc "serverDetails pc"]
    after_push_local_states [of env pc "serverDetails pc"]
  by (auto simp add: Run_login_push_def ServerDetails_of_def CheckError_def
      split: option.split_asm)

lemma login_push_strategy:
  "length (filter is_constructor (trace_of (Run_login_push env pc))) \<le> Suc 0"
  "IsValidateSha pc \<Longrightarrow> filter is_tag_event (trace_of (Run_login_push env pc)) = []"
  "\<not> IsValidateSha pc \<Longrightarrow> filter is_digest_event (trace_of (Run_login_push env pc)) = []"
  "set (constructor_digests (trace_of (Run_login_push env pc))) \<subseteq> {fst (cm_Id env (image pc))}"
  by (simp_all add: Run_login_push_def ServerDetails_of_def CheckError_def after_push_strategy
      split: option.split)

lemma login_push_one_constructor:
  assumes "list_ex is_service_manager_created (trace_of (Run_login_push env pc))"
    and "snd (GetRepo env) = None"
    and "IsValidateSha pc \<longrightarrow> snd (cm_Id env (image pc)) = None"
  shows "length (filter is_constructor (trace_of (Run_login_push env pc))) = Suc 0"
  using assms
  by (auto simp add: Run_login_push_def ServerDetails_of_def CheckError_def
        after_push_one_constructor
      split: option.split_asm)

subsection \<open>The whole run\<close>

text \<open>
  Claim C6. Without build-info collection, with the detailed summary and once the tag
  resolver is constructed, the calls on the tag resolver are exactly: construction,
  \<open>SetSkipTaggingLayers(true)\<close>, then \<open>Build\<close> with the empty module name on the builder
  with skip-tagging set. With build-info collection \<open>SetSkipTaggingLayers\<close> is never
  called. On the digest path it is never called either, and every \<open>Build\<close> is called on
  the digest resolver exactly as it was constructed.
\<close>

theorem C6_skip_tagging:
  "(\<not> fst (IsCollectBuildInfo (buildConfiguration pc)) \<and> IsDetailedSummary pc
      \<and> list_ex is_tag_resolver_constructed (trace_of (Run env pc)) \<longrightarrow>
      filter is_tag_event (trace_of (Run env pc))
        = [EvNewLocalBuilder None, EvSetSkipTaggingLayers True,
           EvLocalBuild (SetSkipTaggingLayers env True (local_builder env pc)) []
             (fst (LocalBuild env (SetSkipTaggingLayers env True (local_builder env pc)) []))])
   \<and> (fst (IsCollectBuildInfo (buildConfiguration pc)) \<longrightarrow>
        \<not> list_ex is_SetSkipTaggingLayers (trace_of (Run env pc)))
   \<and> (IsValidateSha pc \<longrightarrow>
        \<not> list_ex is_SetSkipTaggingLayers (trace_of (Run env pc))
        \<and> set (remote_build_states (trace_of (Run env pc))) \<subseteq> {remote_builder env pc})"
proof (intro conjI impI)
  assume "\<not> fst (IsCollectBuildInfo (buildConfiguration pc)) \<and> IsDetailedSummary pc
      \<and> list_ex is_tag_resolver_constructed (trace_of (Run env pc))"
  then show "filter is_tag_event (trace_of (Run env pc))
        = [EvNewLocalBuilder None, EvSetSkipTaggingLayers True,
           EvLocalBuild (SetSkipTaggingLayers env True (local_builder env pc)) []
             (fst (LocalBuild env (SetSkipTaggingLayers env True (local_builder env pc)) []))]"
    by (auto simp add: Run_def login_push_tag_events split: option.split_asm if_split_asm)
next
  assume "fst (IsCollectBuildInfo (buildConfiguration pc))"
  then show "\<not> list_ex is_SetSkipTaggingLayers (trace_of (Run env pc))"
    by (simp add: Run_def login_push_no_skip split: option.split)
next
  assume "IsValidateSha pc"
  then show "\<not> list_ex is_SetSkipTaggingLayers (trace_of (Run env pc))"
    by (simp add: Run_def login_push_no_skip split: option.split)
next
  show "set (remote_build_states (trace_of (Run env pc))) \<subseteq> {remote_builder env pc}"
    using login_push_build_states(1) [of env pc]
    by (simp add: Run_def split: option.split)
qed

text \<open>The three flag combinations of the claim at the example collaborators.\<close>

theorem C6_skip_tagging_witness:
  "list_ex is_tag_resolver_constructed (trace_of (Run example_env (flags_pc False True False)))
   \<and> filter is_tag_event (trace_of (Run example_env (flags_pc False True False)))
       = [EvNewLocalBuilder None, EvSetSkipTaggingLayers True,
          EvLocalBuild True [] (Some (BuildInfo []), None)]
   \<and> \<not> list_ex is_SetSkipTaggingLayers (trace_of (Run example_env (flags_pc True True False)))
   \<and> \<not> list_ex is_SetSkipTaggingLayers (trace_of (Run example_env (flags_pc False True True)))
   \<and> remote_build_states (trace_of (Run example_env (flags_pc False True True))) = [()]"
  using C6_skip_tagging [of "flags_pc False True False" example_env]
    C6_skip_tagging [of "flags_pc True True False" example_env]
    C6_skip_tagging [of "flags_pc False True True" example_env]
  by (simp add: run_defs example_defs local_builder_def)

text \<open>
  Claim C8, as the code has it. A run constructs at most one resolver, and exactly one
  once the service manager is created, the repository is known and (on the digest path)
  the engine has reported the digest. With validation by digest there is no call of the tag
  strategy, without it none of the digest strategy. The digest resolver is constructed with
  the digest the engine reported, and every \<open>Build\<close> is called on the constructed resolver
  (for the tag resolver possibly with skip-tagging set).
\<close>

theorem C8_one_strategy:
  "length (filter is_constructor (trace_of (Run env pc))) \<le> 1
   \<and> (list_ex is_service_manager_created (trace_of (Run env pc)) \<and> snd (GetRepo env) = None
        \<and> (IsValidateSha pc \<longrightarrow> snd (cm_Id env (image pc)) = None) \<longrightarrow>
        length (filter is_constructor (trace_of (Run env pc))) = 1)
   \<and> (IsValidateSha pc \<longrightarrow> \<not> list_ex is_tag_event (trace_of (Run env pc)))
   \<and> (\<not> IsValidateSha pc \<longrightarrow> \<not> list_ex is_digest_event (trace_of (Run env pc)))
   \<and> set (constructor_digests (trace_of (Run env pc))) \<subseteq> {fst (cm_Id env (image pc))}
   \<and> set (remote_build_states (trace_of (Run env pc))) \<subseteq> {remote_builder env pc}
   \<and> set (local_build_states (trace_of (Run env pc)))
        \<subseteq> {local_builder env pc, SetSkipTaggingLayers env True (local_builder env pc)}"
proof (intro conjI impI)
  show "length (filter is_constructor (trace_of (Run env pc))) \<le> 1"
    using login_push_strategy(1) [of env pc] by (simp add: Run_def split: option.split)
next
  assume "list_ex is_service_manager_created (trace_of (Run env pc)) \<and> snd (GetRepo env) = None
        \<and> (IsValidateSha pc \<longrightarrow> snd (cm_Id env (image pc)) = None)"
  then show "length (filter is_constructor (trace_of (Run env pc))) = 1"
    by (auto simp add: Run_def login_push_one_constructor split: option.split_asm if_split_asm)
next
  assume "IsValidateSha pc"
  then have "filter is_tag_event (trace_of (Run env pc)) = []"
    by (simp add: Run_def login_push_strategy split: option.split)
  then show "\<not> list_ex is_tag_event (trace_of (Run env pc))"
    by (simp add: list_ex_iff filter_empty_conv)
next
  assume "\<not> IsValidateSha pc"
  then have "filter is_digest_event (trace_of (Run env pc)) = []"
    by (simp add: Run_def login_push_strategy split: option.split)
  then show "\<not> list_ex is_digest_event (trace_of (Run env pc))"
    by (simp add: list_ex_iff filter_empty_conv)
next
  show "set (constructor_digests (trace_of (Run env pc))) \<subseteq> {fst (cm_Id env (image pc))}"
    using login_push_strategy(4) [of env pc] by (simp add: Run_def split: option.split)
next
  show "set (remote_build_states (trace_of (Run env pc))) \<subseteq> {remote_builder env pc}"
    using login_push_build_states(1) [of env pc] by (simp add: Run_def split: option.split)
next
  show "set (local_build_states (trace_of (Run env pc)))
        \<subseteq> {local_builder env pc, SetSkipTaggingLayers env True (local_builder env pc)}"
    using login_push_build_states(2) [of env pc] by (simp add: Run_def split: option.split)
qed

text \<open>Both strategies at the example collaborators.\<close>

theorem C8_one_strategy_witness:
  "list_ex is_service_manager_created (trace_of (Run example_env (flags_pc True True True)))
   \<and> filter is_constructor (trace_of (Run example_env (flags_pc True True True)))
       = [EvNewRemoteBuilder ''sha256:abc'' None]
   \<and> \<not> list_ex is_tag_event (trace_of (Run example_env (flags_pc True True True)))
   \<and> filter is_constructor (trace_of (Run example_env (flags_pc True True False)))
       = [EvNewLocalBuilder None]
   \<and> \<not> list_ex is_digest_event (trace_of (Run example_env (flags_pc True True False)))"
  using C8_one_strategy [of example_env "flags_pc True True True"]
    C8_one_strategy [of example_env "flags_pc True True False"]
  by (simp add: run_defs example_defs)

text \<open>
  Claim C8 as stated fails for a run with both flags off: it returns nil and no resolver
  of either strategy is constructed.
\<close>

theorem C8_no_strategy_counterexample:
  "outcome_of (Run example_env (flags_pc False False True)) = Returned None
   \<and> filter is_constructor (trace_of (Run example_env (flags_pc False False True))) = []
   \<and> \<not> list_ex is_digest_event (trace_of (Run example_env (flags_pc False False True)))
   \<and> \<not> list_ex is_tag_event (trace_of (Run example_env (flags_pc False False True)))"
  by (simp add: run_defs example_defs)

section \<open>One resolution pass\<close>

lemma summary_return_manifests:
  "manifests (trace_of (summary_return env pc sd layers))
     = (case sd of
          None \<Rightarrow> []
        | Some s \<Rightarrow> (case layers of None \<Rightarrow> [] | Some ls \<Rightarrow> [layers_loop (ArtifactoryUrl s) ls []]))"
  by (simp add: summary_return_trace split: option.split)

lemma validateSha_summary_collect:
  "filter is_Build (trace_of (Run_validateSha_summary env pc sd True rb)) = []"
  "manifests (trace_of (Run_validateSha_summary env pc sd True rb))
     = (if IsDetailedSummary pc
          then manifests (trace_of (summary_return env pc sd (RemoteGetLayers env rb))) else [])"
  by (simp_all add: Run_validateSha_summary_def summary_return_no_Build)

lemma standard_summary_collect:
  "filter is_Build (trace_of (Run_standard_summary env pc sd True lb)) = []"
  "manifests (trace_of (Run_standard_summary env pc sd True lb))
     = (if IsDetailedSummary pc
          then manifests (trace_of (summary_return env pc sd (LocalGetLayers env lb))) else [])"
  by (simp_all add: Run_standard_summary_def summary_return_no_Build)

lemma validateSha_collect_Build:
  "filter is_Build (trace_of (Run_validateSha env pc sd True bn bnr repo))
     = (if list_ex is_general_details_saved (trace_of (Run_validateSha env pc sd True bn bnr repo))
          then [EvRemoteBuild
                  (fst (NewRemoteAgentBuildInfoBuilder env (image pc) repo bn bnr
                          (GetProject (buildConfiguration pc)) (fst (cm_Id env (image pc)))))
                  (GetModule (buildConfiguration pc))
                  (fst (RemoteBuild env
                     (fst (NewRemoteAgentBuildInfoBuilder env (image pc) repo bn bnr
                          (GetProject (buildConfiguration pc)) (fst (cm_Id env (image pc)))))
                     (GetModule (buildConfiguration pc))))]
        else [])"
  by (simp add: Run_validateSha_def validateSha_summary_collect validateSha_summary_filters
      split: option.split prod.split)

lemma standard_collect_Build:
  "filter is_Build (trace_of (Run_standard env pc sd True bn bnr repo))
     = (if list_ex is_general_details_saved (trace_of (Run_standard env pc sd True bn bnr repo))
          then [EvLocalBuild
                  (fst (NewLocalAgentBuildInfoBuilder env (image pc) repo bn bnr
                          (GetProject (buildConfiguration pc))))
                  (GetModule (buildConfiguration pc))
                  (fst (LocalBuild env
                     (fst (NewLocalAgentBuildInfoBuilder env (image pc) repo bn bnr
                          (GetProject (buildConfiguration pc))))
                     (GetModule (buildConfiguration pc))))]
        else [])"
  by (simp add: Run_standard_def standard_summary_collect standard_summary_filters
      split: option.split prod.split)

lemma validateSha_collect_saved:
  "outcome_of (Run_validateSha env pc sd True bn bnr repo) = Returned None \<Longrightarrow>
   list_ex is_general_details_saved (trace_of (Run_validateSha env pc sd True bn bnr repo))"
  by (auto simp add: Run_validateSha_def CheckError_def split: option.split_asm prod.split_asm)

lemma standard_collect_saved:
  "outcome_of (Run_standard env pc sd True bn bnr repo) = Returned None \<Longrightarrow>
   list_ex is_general_details_saved (trace_of (Run_standard env pc sd True bn bnr repo))"
  by (auto simp add: Run_standard_def split: option.split_asm prod.split_asm)

lemma validateSha_collect_manifests:
  "manifests (trace_of (Run_validateSha env pc sd True bn bnr repo)) = []
   \<or> (\<exists>s ls. sd = Some s
        \<and> RemoteGetLayers env (snd (RemoteBuild env
             (fst (NewRemoteAgentBuildInfoBuilder env (image pc) repo bn bnr
                     (GetProject (buildConfiguration pc)) (fst (cm_Id env (image pc)))))
             (GetModule (buildConfiguration pc)))) = Some ls
        \<and> manifests (trace_of (Run_validateSha env pc sd True bn bnr repo))
            = [layers_loop (ArtifactoryUrl s) ls []])"
  by (auto simp add: Run_validateSha_def validateSha_summary_collect summary_return_manifests
      split: option.split prod.split)

lemma standard_collect_manifests:
  "manifests (trace_of (Run_standard env pc sd True bn bnr repo)) = []
   \<or> (\<exists>s ls. sd = Some s
        \<and> LocalGetLayers env (snd (LocalBuild env
             (fst (NewLocalAgentBuildInfoBuilder env (image pc) repo bn bnr
                     (GetProject (buildConfiguration pc))))
             (GetModule (buildConfiguration pc)))) = Some ls
        \<and> manifests (trace_of (Run_standard env pc sd True bn bnr repo))
            = [layers_loop (ArtifactoryUrl s) ls []])"
  by (auto simp add: Run_standard_def standard_summary_collect summary_return_manifests
      split: option.split prod.split)

lemma validateSha_collect_count:
  "\<not> list_ex is_general_details_saved (trace_of (Run_validateSha env pc sd True bn bnr repo)) \<Longrightarrow>
   filter is_Build (trace_of (Run_validateSha env pc sd True bn bnr repo)) = []"
  "list_ex is_general_details_saved (trace_of (Run_validateSha env pc sd True bn bnr repo)) \<Longrightarrow>
   length (filter is_Build (trace_of (Run_validateSha env pc sd True bn bnr repo))) = Suc 0"
  by (simp_all add: validateSha_collect_Build)

lemma standard_collect_count:
  "\<not> list_ex is_general_details_saved (trace_of (Run_standard env pc sd True bn bnr repo)) \<Longrightarrow>
   filter is_Build (trace_of (Run_standard env pc sd True bn bnr repo)) = []"
  "list_ex is_general_details_saved (trace_of (Run_standard env pc sd True bn bnr repo)) \<Longrightarrow>
   length (filter is_Build (trace_of (Run_standard env pc sd True bn bnr repo))) = Suc 0"
  by (simp_all add: standard_collect_Build)

lemma summary_return_written:
  "outcome_of (summary_return env pc sd layers) = Returned None \<Longrightarrow>
   manifests (trace_of (summary_return env pc sd layers)) \<noteq> []"
  by (auto simp add: summary_return_def layersMapToFileTransferDetails_def Let_def
      split: option.split_asm prod.split_asm)

lemma validateSha_summary_written:
  "IsDetailedSummary pc \<Longrightarrow>
   outcome_of (Run_validateSha_summary env pc sd True rb) = Returned None \<Longrightarrow>
   manifests (trace_of (Run_validateSha_summary env pc sd True rb)) \<noteq> []"
  by (simp add: Run_validateSha_summary_def summary_return_written)

lemma standard_summary_written:
  "IsDetailedSummary pc \<Longrightarrow>
   outcome_of (Run_standard_summary env pc sd True lb) = Returned None \<Longrightarrow>
   manifests (trace_of (Run_standard_summary env pc sd True lb)) \<noteq> []"
  by (simp add: Run_standard_summary_def summary_return_written)

lemma validateSha_collect_written:
  "IsDetailedSummary pc \<Longrightarrow>
   outcome_of (Run_validateSha env pc sd True bn bnr repo) = Returned None \<Longrightarrow>
   manifests (trace_of (Run_validateSha env pc sd True bn bnr repo)) \<noteq> []"
  by (auto simp add: Run_validateSha_def CheckError_def validateSha_summary_written
      split: option.split_asm prod.split_asm)

lemma standard_collect_written:
  "IsDetailedSummary pc \<Longrightarrow>
   outcome_of (Run_standard env pc sd True bn bnr repo) = Returned None \<Longrightarrow>
   \<not> list_ex is_nil_Build (trace_of (Run_standard env pc sd True bn bnr repo)) \<Longrightarrow>
   manifests (trace_of (Run_standard env pc sd True bn bnr repo)) \<noteq> []"
  by (auto simp add: Run_standard_def standard_summary_written
      split: option.split_asm prod.split_asm if_split_asm)

lemma after_push_collect_count:
  assumes "IsCollectBuildInfo (buildConfiguration pc) = (True, None)"
  shows "\<not> list_ex is_general_details_saved (trace_of (Run_after_push env pc sd)) \<Longrightarrow>
         filter is_Build (trace_of (Run_after_push env pc sd)) = []"
    and "list_ex is_general_details_saved (trace_of (Run_after_push env pc sd)) \<Longrightarrow>
         length (filter is_Build (trace_of (Run_after_push env pc sd))) = Suc 0"
  using assms
  by (auto simp add: Run_after_push_def validateSha_collect_count standard_collect_count
      split: option.split_asm prod.split_asm if_split_asm)

lemma after_push_collect:
  assumes "IsCollectBuildInfo (buildConfiguration pc) = (True, None)"
  shows "outcome_of (Run_after_push env pc sd) = Returned None \<Longrightarrow>
         list_ex is_general_details_saved (trace_of (Run_after_push env pc sd))"
    and "IsDetailedSummary pc \<Longrightarrow> outcome_of (Run_after_push env pc sd) = Returned None \<Longrightarrow>
         \<not> list_ex is_nil_Build (trace_of (Run_after_push env pc sd)) \<Longrightarrow>
         manifests (trace_of (Run_after_push env pc sd)) \<noteq> []"
  using assms
  by (auto simp add: Run_after_push_def
        validateSha_collect_saved standard_collect_saved
        validateSha_collect_written standard_collect_written
      split: option.split_asm prod.split_asm if_split_asm)

lemma after_push_collect_manifests:
  assumes "IsCollectBuildInfo (buildConfiguration pc) = (True, None)"
  shows "manifests (trace_of (Run_after_push env pc sd)) = []
       \<or> (\<exists>s ls. sd = Some s \<and> resolved_layers env pc = Some ls
            \<and> manifests (trace_of (Run_after_push env pc sd)) = [layers_loop (ArtifactoryUrl s) ls []])"
  using assms
    validateSha_collect_manifests [of env pc sd "fst (GetBuildName (buildConfiguration pc))"
      "fst (GetBuildNumber (buildConfiguration pc))" "fst (GetRepo env)"]
    standard_collect_manifests [of env pc sd "fst (GetBuildName (buildConfiguration pc))"
      "fst (GetBuildNumber (buildConfiguration pc))" "fst (GetRepo env)"]
  by (auto simp add: Run_after_push_def resolved_layers_def remote_builder_def local_builder_def
      split: option.split prod.split)

lemma login_push_collect_count:
  assumes "IsCollectBuildInfo (buildConfiguration pc) = (True, None)"
  shows "\<not> list_ex is_general_details_saved (trace_of (Run_login_push env pc)) \<Longrightarrow>
         filter is_Build (trace_of (Run_login_push env pc)) = []"
    and "list_ex is_general_details_saved (trace_of (Run_login_push env pc)) \<Longrightarrow>
         length (filter is_Build (trace_of (Run_login_push env pc))) = Suc 0"
  using after_push_collect_count [OF assms, of env "serverDetails pc"]
  by (auto simp add: Run_login_push_def ServerDetails_of_def CheckError_def
      split: option.split_asm)

lemma login_push_collect:
  assumes "IsCollectBuildInfo (buildConfiguration pc) = (True, None)"
  shows "outcome_of (Run_login_push env pc) = Returned None \<Longrightarrow>
         list_ex is_general_details_saved (trace_of (Run_login_push env pc))"
    and "IsDetailedSummary pc \<Longrightarrow> outcome_of (Run_login_push env pc) = Returned None \<Longrightarrow>
         \<not> list_ex is_nil_Build (trace_of (Run_login_push env pc)) \<Longrightarrow>
         manifests (trace_of (Run_login_push env pc)) \<noteq> []"
  using after_push_collect [OF assms, of env "serverDetails pc"]
  by (auto simp add: Run_login_push_def ServerDetails_of_def CheckError_def
      split: option.split_asm)

lemma login_push_collect_manifests:
  assumes "IsCollectBuildInfo (buildConfiguration pc) = (True, None)"
  shows "manifests (trace_of (Run_login_push env pc)) = []
       \<or> (\<exists>s ls. serverDetails pc = Some s \<and> resolved_layers env pc = Some ls
            \<and> manifests (trace_of (Run_login_push env pc)) = [layers_loop (ArtifactoryUrl s) ls []])"
  using after_push_collect_manifests [OF assms, of env "serverDetails pc"]
  by (auto simp add: Run_login_push_def ServerDetails_of_def CheckError_def
      split: option.split)

lemma Run_collect_count:
  assumes "IsCollectBuildInfo (buildConfiguration pc) = (True, None)"
  shows "\<not> list_ex is_general_details_saved (trace_of (Run env pc)) \<Longrightarrow>
         filter is_Build (trace_of (Run env pc)) = []"
    and "list_ex is_general_details_saved (trace_of (Run env pc)) \<Longrightarrow>
         length (filter is_Build (trace_of (Run env pc))) = Suc 0"
  using login_push_collect_count [OF assms, of env]
  by (auto simp add: Run_def split: option.split_asm if_split_asm)

text \<open>
  Claim C7, as the code has it. With build-info collection and the detailed summary both
  requested, \<open>Build\<close> is called at most once, and exactly once when the general details
  were saved and also when \<^verbatim>\<open>Run\<close> returns nil. A run that returns nil after a \<open>Build\<close>
  that gave a module writes a transfer manifest, and a manifest that is written is built
  from the layers the resolver holds after the \<open>Build\<close> call of the build-info block.
\<close>

theorem C7_one_resolution:
  assumes "IsCollectBuildInfo (buildConfiguration pc) = (True, None)" and "IsDetailedSummary pc"
  shows "length (filter is_Build (trace_of (Run env pc))) \<le> 1
       \<and> (list_ex is_general_details_saved (trace_of (Run env pc)) \<longrightarrow>
            length (filter is_Build (trace_of (Run env pc))) = 1)
       \<and> (outcome_of (Run env pc) = Returned None \<longrightarrow>
            length (filter is_Build (trace_of (Run env pc))) = 1)
       \<and> (outcome_of (Run env pc) = Returned None
            \<and> \<not> list_ex is_nil_Build (trace_of (Run env pc)) \<longrightarrow>
            manifests (trace_of (Run env pc)) \<noteq> [])
       \<and> (manifests (trace_of (Run env pc)) = []
            \<or> (\<exists>s ls. serverDetails pc = Some s \<and> resolved_layers env pc = Some ls
                 \<and> manifests (trace_of (Run env pc)) = [layers_loop (ArtifactoryUrl s) ls []]))"
proof (intro conjI impI)
  show "length (filter is_Build (trace_of (Run env pc))) \<le> 1"
    using Run_collect_count [OF assms(1), of env]
    by (cases "list_ex is_general_details_saved (trace_of (Run env pc))") simp_all
next
  assume "list_ex is_general_details_saved (trace_of (Run env pc))"
  then show "length (filter is_Build (trace_of (Run env pc))) = 1"
    by (simp add: Run_collect_count [OF assms(1)])
next
  assume "outcome_of (Run env pc) = Returned None"
  then have "list_ex is_general_details_saved (trace_of (Run env pc))"
    using login_push_collect(1) [OF assms(1), of env]
    by (auto simp add: Run_def split: option.split_asm if_split_asm)
  then show "length (filter is_Build (trace_of (Run env pc))) = 1"
    by (simp add: Run_collect_count [OF assms(1)])
next
  assume "outcome_of (Run env pc) = Returned None
            \<and> \<not> list_ex is_nil_Build (trace_of (Run env pc))"
  then show "manifests (trace_of (Run env pc)) \<noteq> []"
    using login_push_collect(2) [OF assms, of env]
    by (auto simp add: Run_def split: option.split_asm if_split_asm)
next
  show "manifests (trace_of (Run env pc)) = []
            \<or> (\<exists>s ls. serverDetails pc = Some s \<and> resolved_layers env pc = Some ls
                 \<and> manifests (trace_of (Run env pc)) = [layers_loop (ArtifactoryUrl s) ls []])"
    using login_push_collect_manifests [OF assms(1), of env]
    by (auto simp add: Run_def split: option.split)
qed

text \<open>The digest path with both flags set.\<close>

theorem C7_one_resolution_witness:
  "filter is_Build (trace_of (Run example_env (flags_pc True True True)))
     = [EvRemoteBuild () ''mod'' (Some (BuildInfo ''mod''), None)]
   \<and> outcome_of (Run example_env (flags_pc True True True)) = Returned None
   \<and> manifests (trace_of (Run example_env (flags_pc True True True)))
       = [[\<lparr>SourcePath = [], TargetPath = ''r/p/n'', RtUrl = ''https://x'', Sha256 = ''abc''\<rparr>]]"
  using C7_one_resolution [of "flags_pc True True True" example_env]
  by (simp add: run_defs example_defs example_layer_def layer_details_def Join_rpn)

text \<open>
  Claim C7 as stated fails when the general details cannot be saved: both flags are set,
  the resolver is constructed, and \<open>Build\<close> is not called at all.
\<close>

theorem C7_no_resolution_counterexample:
  "IsCollectBuildInfo (buildConfiguration (flags_pc True True False)) = (True, None)
   \<and> IsDetailedSummary (flags_pc True True False)
   \<and> list_ex is_constructed (trace_of (Run no_details_env (flags_pc True True False)))
   \<and> filter is_Build (trace_of (Run no_details_env (flags_pc True True False))) = []"
  by (simp add: run_defs example_defs)

end
